theory Spec2Isabelle
  imports Complex_Main "HOL-Library.Char_ord" "HOL-Library.List_Lexorder"
    "HOL-Library.Product_Lexorder" "HOL-Library.Option_ord" "HOL-Library.AList"
begin

section \<open>Errors\<close>

text \<open>
  The exceptions the engine can raise, as values. \<open>FileNotFoundError\<close> and
  \<open>ReadFailure\<close> come from \<^verbatim>\<open>pd.read_csv\<close>; \<open>KeyError\<close> names the column labels
  that a lookup did not find; \<open>TypeError\<close> is raised by a numeric operation on a
  column that holds strings.
\<close>

datatype error = FileNotFoundError | ReadFailure | KeyError "string list" | TypeError

definition bindE :: "error + 'a \<Rightarrow> ('a \<Rightarrow> error + 'b) \<Rightarrow> error + 'b" where
  "bindE m f = (case m of Inl e \<Rightarrow> Inl e | Inr x \<Rightarrow> f x)"

fun mapE :: "('a \<Rightarrow> error + 'b) \<Rightarrow> 'a list \<Rightarrow> error + 'b list" where
  "mapE f [] = Inr []"
| "mapE f (x # xs) = bindE (f x) (\<lambda>y. bindE (mapE f xs) (\<lambda>ys. Inr (y # ys)))"

section \<open>Numbers\<close>

text \<open>
  A numeric cell of a loaded table is a finite number, or NaN (a missing cell), here
  \<open>None\<close>. A zero cell stands for \<open>+0.0\<close>: the sign of a zero is not recorded (it
  would only decide the sign of the infinity that a division by that zero gives). A
  number that pandas computes can also be an infinity: it is an \<open>xreal\<close>.
\<close>

datatype xreal = Fin real | PInf | MInf | XNaN

datatype dtype = Int64 | Float64

datatype reducer = RSum | RMean | RCount | RMin | RMax

text \<open>
  The arithmetic of pandas and numpy is outside the repository. A sum or a mean of
  binary64 numbers is rounded, in an order of additions that depends on the installed
  versions, and can overflow to an infinity; a sum of int64 numbers wraps. What these
  operations return is therefore a parameter of the model, and every theorem below
  holds for every such arithmetic:

  \<^item> \<open>series_sum\<close>, \<open>series_mean\<close>, \<open>series_std\<close>: \<^verbatim>\<open>Series.sum()\<close>, \<^verbatim>\<open>Series.mean()\<close> and
    \<^verbatim>\<open>Series.std()\<close> on the cells of a numeric column of the given dtype;
  \<^item> \<open>group_cell\<close>: the cell that \<^verbatim>\<open>groupby(...).agg({...}).round(2)\<close> shows for one
    group, from the reducer, the dtype and the group's cells;
  \<^item> \<open>to_float\<close>: the binary64 number that an int64 number is converted to when it
    is compared with a binary64 scalar;
  \<^item> \<open>fadd\<close>: the sum of two binary64 scalars;
  \<^item> \<open>sort_desc\<close>: the row positions in the order of
    \<^verbatim>\<open>Series.sort_values(ascending=False)\<close>, whose default sort is numpy's quicksort;
  \<^item> \<open>efficiency_of\<close>: the value of \<^verbatim>\<open>100 - d * 20 - l / 30 * 100\<close> for two present
    cells \<open>d\<close> and \<open>l\<close> of the given dtypes;
  \<^item> \<open>ratio_of\<close>: the value of \<^verbatim>\<open>r / m\<close> for two present cells of the given dtypes.
\<close>

record numerics =
  series_sum :: "dtype \<Rightarrow> real option list \<Rightarrow> xreal"
  series_mean :: "dtype \<Rightarrow> real option list \<Rightarrow> xreal"
  series_std :: "dtype \<Rightarrow> real option list \<Rightarrow> xreal"
  group_cell :: "reducer \<Rightarrow> dtype \<Rightarrow> real option list \<Rightarrow> xreal"
  to_float :: "real \<Rightarrow> real"
  fadd :: "xreal \<Rightarrow> xreal \<Rightarrow> xreal"
  sort_desc :: "dtype \<Rightarrow> real option list \<Rightarrow> nat list"
  efficiency_of :: "dtype \<Rightarrow> dtype \<Rightarrow> real \<Rightarrow> real \<Rightarrow> xreal"
  ratio_of :: "dtype \<Rightarrow> dtype \<Rightarrow> real \<Rightarrow> real \<Rightarrow> xreal"

section \<open>Data frames\<close>

text \<open>
  A pandas column is either numeric (of dtype int64 or float64) or of dtype object
  (Python strings; a missing cell is NaN, here \<open>None\<close>). The cells of an int64 column
  are integers, none of them missing. A column of the file in which some cell does not
  parse as a number is loaded by \<^verbatim>\<open>read_csv\<close> as an object column.
  A frame read from a file has the row labels \<open>0, 1, ..., nrows - 1\<close>.
\<close>

datatype column = NumCol dtype "real option list" | ObjCol "string option list"

datatype cell = NumCell "real option" | ObjCell "string option"

fun col_len :: "column \<Rightarrow> nat" where
  "col_len (NumCol dt xs) = length xs"
| "col_len (ObjCol ss) = length ss"

fun cell_at :: "column \<Rightarrow> nat \<Rightarrow> cell" where
  "cell_at (NumCol dt xs) p = NumCell (xs ! p)"
| "cell_at (ObjCol ss) p = ObjCell (ss ! p)"

record frame =
  nrows :: nat
  cols :: "(string \<times> column) list"

definition wf_frame :: "frame \<Rightarrow> bool" where
  "wf_frame df \<longleftrightarrow> distinct (map fst (cols df)) \<and> list_all (\<lambda>(name, c). col_len c = nrows df) (cols df)"

text \<open>\<^verbatim>\<open>df[name]\<close>: the column, or KeyError.\<close>

definition getitem :: "frame \<Rightarrow> string \<Rightarrow> error + column" where
  "getitem df name = (case map_of (cols df) name of None \<Rightarrow> Inl (KeyError [name]) | Some c \<Rightarrow> Inr c)"

text \<open>
  The cells of a column as numbers. An elementwise numeric operation on an object
  column fails on the first string; an object column without strings (the columns of a
  file with a header and no rows) holds only missing cells.
\<close>

fun as_numeric :: "column \<Rightarrow> error + real option list" where
  "as_numeric (NumCol dt xs) = Inr xs"
| "as_numeric (ObjCol ss) = (if list_all (\<lambda>s. s = None) ss then Inr (map (\<lambda>_. None) ss) else Inl TypeError)"

text \<open>
  The dtype under which the present cells of a column enter an arithmetic expression;
  an object column that gets this far has no present cell.
\<close>

fun numeric_dtype :: "column \<Rightarrow> dtype" where
  "numeric_dtype (NumCol dt xs) = dt"
| "numeric_dtype (ObjCol ss) = Float64"

text \<open>Comparisons with NaN are false.\<close>

definition lt_cell :: "real option \<Rightarrow> real option \<Rightarrow> bool" where
  "lt_cell x y = (case (x, y) of (Some a, Some b) \<Rightarrow> a < b | _ \<Rightarrow> False)"

text \<open>
  \<^verbatim>\<open>col < k\<close> and \<^verbatim>\<open>col > k\<close> for a Python integer \<open>k\<close>: a boolean mask. The comparison
  of an int64 or a binary64 number with a small integer is exact.
\<close>

definition col_lt :: "column \<Rightarrow> real option \<Rightarrow> error + bool list" where
  "col_lt c k = bindE (as_numeric c) (\<lambda>xs. Inr (map (\<lambda>x. lt_cell x k) xs))"

definition col_gt :: "column \<Rightarrow> real option \<Rightarrow> error + bool list" where
  "col_gt c k = bindE (as_numeric c) (\<lambda>xs. Inr (map (\<lambda>x. lt_cell k x) xs))"

text \<open>
  \<^verbatim>\<open>col > k\<close> for a binary64 scalar \<open>k\<close> that was computed (a mean, or a mean plus a
  standard deviation): the cells of an int64 column are first converted to binary64.
  No number is above \<open>+inf\<close> or NaN, and every number is above \<open>-inf\<close>.
\<close>

definition float_cells :: "numerics \<Rightarrow> dtype \<Rightarrow> real option list \<Rightarrow> real option list" where
  "float_cells lib dt xs = (case dt of Int64 \<Rightarrow> map (map_option (to_float lib)) xs | Float64 \<Rightarrow> xs)"

fun as_float :: "numerics \<Rightarrow> column \<Rightarrow> error + real option list" where
  "as_float lib (NumCol dt xs) = Inr (float_cells lib dt xs)"
| "as_float lib (ObjCol ss) = (if list_all (\<lambda>s. s = None) ss then Inr (map (\<lambda>_. None) ss) else Inl TypeError)"

fun gt_scalar :: "real option \<Rightarrow> xreal \<Rightarrow> bool" where
  "gt_scalar (Some a) (Fin b) = (b < a)"
| "gt_scalar (Some a) MInf = True"
| "gt_scalar x k = False"

definition col_gt_float :: "numerics \<Rightarrow> column \<Rightarrow> xreal \<Rightarrow> error + bool list" where
  "col_gt_float lib c k = bindE (as_float lib c) (\<lambda>xs. Inr (map (\<lambda>x. gt_scalar x k) xs))"

text \<open>\<^verbatim>\<open>col == s\<close> for a string \<open>s\<close>: no numeric cell and no missing cell equals a string.\<close>

fun col_eq_str :: "column \<Rightarrow> string \<Rightarrow> bool list" where
  "col_eq_str (NumCol dt xs) s = map (\<lambda>_. False) xs"
| "col_eq_str (ObjCol ss) s = map (\<lambda>x. x = Some s) ss"

text \<open>The present (non-NaN) values of a column, in row order.\<close>

definition present :: "'a option list \<Rightarrow> 'a list" where
  "present xs = List.map_filter id xs"

text \<open>
  \<^verbatim>\<open>Series.mean()\<close> and \<^verbatim>\<open>Series.std()\<close>: the arithmetic's on a numeric column, a
  TypeError on strings, NaN when there is no cell at all.
\<close>

fun col_mean :: "numerics \<Rightarrow> column \<Rightarrow> error + xreal" where
  "col_mean lib (NumCol dt xs) = Inr (series_mean lib dt xs)"
| "col_mean lib (ObjCol ss) = (if list_all (\<lambda>s. s = None) ss then Inr XNaN else Inl TypeError)"

fun col_std :: "numerics \<Rightarrow> column \<Rightarrow> error + xreal" where
  "col_std lib (NumCol dt xs) = Inr (series_std lib dt xs)"
| "col_std lib (ObjCol ss) = (if list_all (\<lambda>s. s = None) ss then Inr XNaN else Inl TypeError)"

text \<open>Row selection by position: the selected rows keep their labels.\<close>

record table =
  labels :: "nat list"
  tcols :: "(string \<times> column) list"

fun pick :: "nat list \<Rightarrow> column \<Rightarrow> column" where
  "pick ps (NumCol dt xs) = NumCol dt (map (\<lambda>p. xs ! p) ps)"
| "pick ps (ObjCol ss) = ObjCol (map (\<lambda>p. ss ! p) ps)"

definition take_rows :: "nat list \<Rightarrow> frame \<Rightarrow> table" where
  "take_rows ps df = \<lparr>labels = ps, tcols = map (\<lambda>(name, c). (name, pick ps c)) (cols df)\<rparr>"

text \<open>\<^verbatim>\<open>df[mask]\<close>: the rows where the mask is true, in row order.\<close>

definition mask_positions :: "bool list \<Rightarrow> nat list" where
  "mask_positions bs = filter (\<lambda>p. bs ! p) [0..<length bs]"

definition select_mask :: "bool list \<Rightarrow> frame \<Rightarrow> table" where
  "select_mask bs df = take_rows (mask_positions bs) df"

text \<open>\<^verbatim>\<open>t[[c1, ..., cn]]\<close>: the named columns in the given order, KeyError with the absent names.\<close>

definition project :: "string list \<Rightarrow> table \<Rightarrow> error + table" where
  "project names t =
     (let missing = filter (\<lambda>name. map_of (tcols t) name = None) names in
      if missing \<noteq> [] then Inl (KeyError missing)
      else Inr \<lparr>labels = labels t,
                tcols = List.map_filter (\<lambda>name. map_option (Pair name) (map_of (tcols t) name)) names\<rparr>)"

section \<open>Grouping\<close>

text \<open>
  \<^verbatim>\<open>groupby\<close> is called with its defaults: rows whose key is missing are dropped
  (\<^verbatim>\<open>dropna=True\<close>) and the group keys are sorted (\<^verbatim>\<open>sort=True\<close>). Strings compare
  as Python compares them, lexicographically by code point.
\<close>

datatype key = KNum real | KStr string

instantiation key :: linorder
begin

fun less_eq_key :: "key \<Rightarrow> key \<Rightarrow> bool" where
  "less_eq_key (KNum a) (KNum b) = (a \<le> b)"
| "less_eq_key (KNum a) (KStr t) = True"
| "less_eq_key (KStr s) (KNum b) = False"
| "less_eq_key (KStr s) (KStr t) = (s \<le> t)"

definition less_key :: "key \<Rightarrow> key \<Rightarrow> bool" where
  "less_key x y = (x \<le> y \<and> \<not> y \<le> x)"

instance
proof
  fix x y z :: key
  show "(x < y) = (x \<le> y \<and> \<not> y \<le> x)" by (simp add: less_key_def)
  show "x \<le> x" by (cases x) simp_all
  show "x \<le> y \<Longrightarrow> y \<le> z \<Longrightarrow> x \<le> z" by (cases x; cases y; cases z) auto
  show "x \<le> y \<Longrightarrow> y \<le> x \<Longrightarrow> x = y" by (cases x; cases y) auto
  show "x \<le> y \<or> y \<le> x" by (cases x; cases y) auto
qed

end

fun col_keys :: "column \<Rightarrow> key option list" where
  "col_keys (NumCol dt xs) = map (map_option KNum) xs"
| "col_keys (ObjCol ss) = map (map_option KStr) ss"

text \<open>The key of a row under a two-column grouping is missing when either part is.\<close>

definition pair_keys :: "key option list \<Rightarrow> key option list \<Rightarrow> (key \<times> key) option list" where
  "pair_keys ks1 ks2 = map (\<lambda>(a, b). case (a, b) of (Some x, Some y) \<Rightarrow> Some (x, y) | _ \<Rightarrow> None) (zip ks1 ks2)"

definition group_keys :: "('k::linorder) option list \<Rightarrow> 'k list" where
  "group_keys ks = sort (remdups (present ks))"

definition group_positions :: "'k option list \<Rightarrow> 'k \<Rightarrow> nat list" where
  "group_positions ks k = filter (\<lambda>p. ks ! p = Some k) [0..<length ks]"

text \<open>
  One cell of an aggregated numeric column. \<open>count\<close> is the number of present cells
  of the group, an integer that \<^verbatim>\<open>round(2)\<close> leaves as it is; the other reducers are the
  arithmetic's.
\<close>

definition agg_cell :: "numerics \<Rightarrow> reducer \<Rightarrow> dtype \<Rightarrow> real option list \<Rightarrow> xreal" where
  "agg_cell lib r dt xs = (if r = RCount then Fin (real (length (present xs))) else group_cell lib r dt xs)"

text \<open>
  An aggregated column. What a reducer other than \<open>count\<close> returns on an object column
  (string concatenation, a lexicographic minimum, or an exception) depends on the pandas
  version; it is the parameter \<open>oa\<close> of the aggregations below, which receives the
  reducer and the cells of each group, and its result is kept as it is.
\<close>

datatype 'o agg_col = NumAgg "xreal list" | ObjAgg 'o

fun agg_column :: "numerics \<Rightarrow> (reducer \<Rightarrow> string option list list \<Rightarrow> error + 'o) \<Rightarrow> nat list list \<Rightarrow>
    reducer \<Rightarrow> column \<Rightarrow> error + 'o agg_col" where
  "agg_column lib oa groups r (NumCol dt xs) =
     Inr (NumAgg (map (\<lambda>g. agg_cell lib r dt (map (\<lambda>p. xs ! p) g)) groups))"
| "agg_column lib oa groups r (ObjCol ss) =
     (if r = RCount then Inr (NumAgg (map (\<lambda>g. Fin (real (length (present (map (\<lambda>p. ss ! p) g))))) groups))
      else bindE (oa r (map (\<lambda>g. map (\<lambda>p. ss ! p) g) groups)) (\<lambda>v. Inr (ObjAgg v)))"

record ('k, 'o) grouped =
  gkeys :: "'k list"
  gaggs :: "((string \<times> reducer) \<times> 'o agg_col) list"

text \<open>
  \<^verbatim>\<open>groupby(...).agg({...}).round(2)\<close> for the row keys \<open>ks\<close>: one row per group key,
  one aggregated column per (column, reducer) of the dictionary. A dictionary that names
  absent columns is refused with their sorted labels before anything is computed.
\<close>

definition agg_round :: "numerics \<Rightarrow> (reducer \<Rightarrow> string option list list \<Rightarrow> error + 'o) \<Rightarrow> frame \<Rightarrow>
    ('k::linorder) option list \<Rightarrow> (string \<times> reducer) list \<Rightarrow> error + ('k, 'o) grouped" where
  "agg_round lib oa df ks spec =
     (let keys = group_keys ks; groups = map (group_positions ks) keys;
          missing = filter (\<lambda>name. map_of (cols df) name = None) (remdups (map fst spec)) in
      if missing \<noteq> [] then Inl (KeyError (sort missing))
      else bindE (mapE (\<lambda>(name, r). bindE (getitem df name) (\<lambda>c.
                    bindE (agg_column lib oa groups r c) (\<lambda>a. Inr ((name, r), a)))) spec)
             (\<lambda>aggs. Inr \<lparr>gkeys = keys, gaggs = aggs\<rparr>))"

definition groupby_agg :: "numerics \<Rightarrow> (reducer \<Rightarrow> string option list list \<Rightarrow> error + 'o) \<Rightarrow> frame \<Rightarrow> string \<Rightarrow>
    (string \<times> reducer) list \<Rightarrow> error + (key, 'o) grouped" where
  "groupby_agg lib oa df by spec = bindE (getitem df by) (\<lambda>kc. agg_round lib oa df (col_keys kc) spec)"

definition groupby2_agg :: "numerics \<Rightarrow> (reducer \<Rightarrow> string option list list \<Rightarrow> error + 'o) \<Rightarrow> frame \<Rightarrow>
    string \<Rightarrow> string \<Rightarrow> (string \<times> reducer) list \<Rightarrow> error + (key \<times> key, 'o) grouped" where
  "groupby2_agg lib oa df by1 by2 spec =
     bindE (getitem df by1) (\<lambda>kc1. bindE (getitem df by2) (\<lambda>kc2.
       agg_round lib oa df (pair_keys (col_keys kc1) (col_keys kc2)) spec))"

text \<open>\<^verbatim>\<open>groupby([by1, by2]).size().reset_index(name=...)\<close>: one row per key pair with its row count.\<close>

definition groupby2_size :: "frame \<Rightarrow> string \<Rightarrow> string \<Rightarrow> error + ((key \<times> key) \<times> nat) list" where
  "groupby2_size df by1 by2 =
     bindE (getitem df by1) (\<lambda>kc1. bindE (getitem df by2) (\<lambda>kc2.
       let ks = pair_keys (col_keys kc1) (col_keys kc2) in
       Inr (map (\<lambda>k. (k, length (group_positions ks k))) (group_keys ks))))"

text \<open>
  \<^verbatim>\<open>df.nlargest(n, name)\<close> (\<^verbatim>\<open>keep='first'\<close>); an object column is refused. When the
  table has more than \<open>n\<close> rows, pandas selects the rows with a stable merge sort: the
  first \<open>n\<close> rows in descending order of the column, equal values in row order, rows
  with a missing value last (\<open>stable_desc\<close>). When the table has at most \<open>n\<close> rows, it
  returns \<^verbatim>\<open>sort_values(ascending=False).head(n)\<close>, in the order of the arithmetic's sort.
\<close>

definition stable_desc :: "real option list \<Rightarrow> nat list" where
  "stable_desc xs = rev (sort_key (\<lambda>p. xs ! p) (rev [0..<length xs]))"

definition nlargest_positions :: "numerics \<Rightarrow> nat \<Rightarrow> dtype \<Rightarrow> real option list \<Rightarrow> nat list" where
  "nlargest_positions lib n dt xs =
     (if length xs \<le> n then take n (sort_desc lib dt xs) else take n (stable_desc xs))"

definition nlargest :: "numerics \<Rightarrow> nat \<Rightarrow> string \<Rightarrow> frame \<Rightarrow> error + table" where
  "nlargest lib n name df = bindE (getitem df name) (\<lambda>c.
     case c of ObjCol ss \<Rightarrow> Inl TypeError
     | NumCol dt xs \<Rightarrow> Inr (take_rows (nlargest_positions lib n dt xs) df))"

section \<open>The engine\<close>

text \<open>
  \<^verbatim>\<open>pd.read_csv\<close> is outside the repository: a file system gives, for each path, a
  missing file, a file that cannot be read or parsed, or the frame that the parser
  builds. The parser knows nothing of the columns the engine will ask for.
\<close>

datatype csv_file = Missing | Unreadable | Parsed frame

definition read_csv :: "(string \<Rightarrow> csv_file) \<Rightarrow> string \<Rightarrow> error + frame" where
  "read_csv fs path = (case fs path of Missing \<Rightarrow> Inl FileNotFoundError | Unreadable \<Rightarrow> Inl ReadFailure
     | Parsed df \<Rightarrow> Inr df)"

record 'o product_metrics =
  category_performance :: "(key, 'o) grouped"
  top_revenue_products :: table
  stock_alerts :: table

record 'o supplier_metrics =
  supplier_performance :: "(key, 'o) grouped"
  supplier_locations :: "((key \<times> key) \<times> nat) list"
  quality_issues :: table

record 'o logistics_metrics =
  carrier_performance :: "(key, 'o) grouped"
  transport_cost_analysis :: "(key \<times> key, 'o) grouped"
  route_efficiency :: "(key, 'o) grouped"

record 'o engine =
  data :: frame
  product_metrics :: "'o product_metrics option"
  supplier_metrics :: "'o supplier_metrics option"
  logistics_metrics :: "'o logistics_metrics option"

text \<open>\<^verbatim>\<open>SupplyChainAnalyzer.__init__\<close>\<close>

definition init :: "(string \<Rightarrow> csv_file) \<Rightarrow> string \<Rightarrow> error + 'o engine" where
  "init fs path = bindE (read_csv fs path) (\<lambda>df.
     Inr \<lparr>data = df, product_metrics = None, supplier_metrics = None, logistics_metrics = None\<rparr>)"

text \<open>
  Every method takes the engine and returns the engine it leaves behind (with its
  return value, if it has one), or the exception it raises. An assignment to a slot
  happens after its right-hand side has been evaluated, so a method that raises leaves
  the engine as it was. The dictionary on the right-hand side of each \<^verbatim>\<open>analyze\<close>
  method is computed from \<^verbatim>\<open>self.data\<close> alone.
\<close>

definition product_metrics_dict ::
    "numerics \<Rightarrow> (reducer \<Rightarrow> string option list list \<Rightarrow> error + 'o) \<Rightarrow> frame \<Rightarrow> error + 'o product_metrics" where
  "product_metrics_dict lib oa df =
     bindE (groupby_agg lib oa df ''Product type''
              [(''Revenue generated'', RSum), (''Number of products sold'', RSum),
               (''Stock levels'', RMean), (''Defect rates'', RMean)]) (\<lambda>cat.
     bindE (nlargest lib 10 ''Revenue generated'' df) (\<lambda>top.
     bindE (project [''SKU'', ''Product type'', ''Revenue generated'', ''Number of products sold''] top) (\<lambda>top'.
     bindE (getitem df ''Stock levels'') (\<lambda>stock.
     bindE (col_lt stock (Some 20)) (\<lambda>low.
     bindE (project [''SKU'', ''Product type'', ''Stock levels'', ''Lead times''] (select_mask low df)) (\<lambda>alerts.
     Inr \<lparr>category_performance = cat, top_revenue_products = top', stock_alerts = alerts\<rparr>))))))"

definition analyze_product_performance ::
    "numerics \<Rightarrow> (reducer \<Rightarrow> string option list list \<Rightarrow> error + 'o) \<Rightarrow> 'o engine \<Rightarrow> error + 'o engine" where
  "analyze_product_performance lib oa self =
     bindE (product_metrics_dict lib oa (data self)) (\<lambda>d. Inr (self\<lparr>product_metrics := Some d\<rparr>))"

definition supplier_metrics_dict ::
    "numerics \<Rightarrow> (reducer \<Rightarrow> string option list list \<Rightarrow> error + 'o) \<Rightarrow> frame \<Rightarrow> error + 'o supplier_metrics" where
  "supplier_metrics_dict lib oa df =
     bindE (groupby_agg lib oa df ''Supplier name''
              [(''Lead time'', RMean), (''Manufacturing costs'', RMean),
               (''Defect rates'', RMean), (''Production volumes'', RSum)]) (\<lambda>perf.
     bindE (groupby2_size df ''Supplier name'' ''Location'') (\<lambda>locs.
     bindE (getitem df ''Inspection results'') (\<lambda>insp.
     bindE (project [''Supplier name'', ''SKU'', ''Defect rates'']
              (select_mask (col_eq_str insp ''Fail'') df)) (\<lambda>issues.
     Inr \<lparr>supplier_performance = perf, supplier_locations = locs, quality_issues = issues\<rparr>))))"

definition analyze_supplier_performance ::
    "numerics \<Rightarrow> (reducer \<Rightarrow> string option list list \<Rightarrow> error + 'o) \<Rightarrow> 'o engine \<Rightarrow> error + 'o engine" where
  "analyze_supplier_performance lib oa self =
     bindE (supplier_metrics_dict lib oa (data self)) (\<lambda>d. Inr (self\<lparr>supplier_metrics := Some d\<rparr>))"

definition logistics_metrics_dict ::
    "numerics \<Rightarrow> (reducer \<Rightarrow> string option list list \<Rightarrow> error + 'o) \<Rightarrow> frame \<Rightarrow> error + 'o logistics_metrics" where
  "logistics_metrics_dict lib oa df =
     bindE (groupby_agg lib oa df ''Shipping carriers''
              [(''Shipping times'', RMean), (''Shipping costs'', RMean),
               (''Number of products sold'', RCount)]) (\<lambda>carrier.
     bindE (groupby2_agg lib oa df ''Transportation modes'' ''Routes''
              [(''Costs'', RMean), (''Shipping times'', RMean)]) (\<lambda>transport.
     bindE (groupby_agg lib oa df ''Routes''
              [(''Shipping times'', RMean), (''Shipping times'', RMin), (''Shipping times'', RMax),
               (''Costs'', RMean)]) (\<lambda>route.
     Inr \<lparr>carrier_performance = carrier, transport_cost_analysis = transport, route_efficiency = route\<rparr>)))"

definition analyze_logistics ::
    "numerics \<Rightarrow> (reducer \<Rightarrow> string option list list \<Rightarrow> error + 'o) \<Rightarrow> 'o engine \<Rightarrow> error + 'o engine" where
  "analyze_logistics lib oa self =
     bindE (logistics_metrics_dict lib oa (data self)) (\<lambda>d. Inr (self\<lparr>logistics_metrics := Some d\<rparr>))"

record risk_row =
  label :: nat
  SKU :: cell
  Stock_Risk :: bool
  Lead_Time_Risk :: bool
  Quality_Risk :: bool
  Cost_Risk :: bool
  Total_Risk_Score :: nat

text \<open>The sum of four booleans along a row.\<close>

definition count_true :: "bool list \<Rightarrow> nat" where
  "count_true bs = length (filter id bs)"

definition get_risk_assessment :: "numerics \<Rightarrow> 'o engine \<Rightarrow> error + (risk_row list \<times> 'o engine)" where
  "get_risk_assessment lib self =
     bindE (getitem (data self) ''SKU'') (\<lambda>sku.
     bindE (getitem (data self) ''Stock levels'') (\<lambda>c1. bindE (col_lt c1 (Some 20)) (\<lambda>stock.
     bindE (getitem (data self) ''Lead time'') (\<lambda>c2. bindE (col_gt c2 (Some 20)) (\<lambda>lead.
     bindE (getitem (data self) ''Defect rates'') (\<lambda>c3. bindE (col_gt c3 (Some 3)) (\<lambda>quality.
     bindE (getitem (data self) ''Manufacturing costs'') (\<lambda>c4.
     bindE (getitem (data self) ''Manufacturing costs'') (\<lambda>c5. bindE (col_mean lib c5) (\<lambda>m.
     bindE (col_gt_float lib c4 m) (\<lambda>cost.
     let risk_factors = map (\<lambda>p.
           \<lparr>label = p, SKU = cell_at sku p, Stock_Risk = stock ! p, Lead_Time_Risk = lead ! p,
            Quality_Risk = quality ! p, Cost_Risk = cost ! p,
            Total_Risk_Score = count_true [stock ! p, lead ! p, quality ! p, cost ! p]\<rparr>)
           [0..<nrows (data self)]
     in Inr (filter (\<lambda>r. 2 \<le> Total_Risk_Score r) risk_factors, self))))))))))))"

record recommendation =
  area :: string
  issue :: string
  action :: string
  priority :: string

text \<open>\<^verbatim>\<open>str(n)\<close> for a length: the decimal digits.\<close>

function str_nat :: "nat \<Rightarrow> string" where
  "str_nat n = (if n < 10 then [''0123456789'' ! n] else str_nat (n div 10) @ [''0123456789'' ! (n mod 10)])"
  by pat_completeness auto
termination
  by (relation "measure id") auto

declare str_nat.simps [simp del]

definition generate_recommendations :: "numerics \<Rightarrow> 'o engine \<Rightarrow> error + (recommendation list \<times> 'o engine)" where
  "generate_recommendations lib self =
     bindE (getitem (data self) ''Stock levels'') (\<lambda>stock. bindE (col_lt stock (Some 20)) (\<lambda>low.
     let low_stock = select_mask low (data self);
         recs1 = (if labels low_stock \<noteq> [] then
             [\<lparr>area = ''Inventory'',
               issue = ''Low stock alerts for '' @ str_nat (length (labels low_stock)) @ '' SKUs'',
               action = ''Reorder stocks for affected SKUs'', priority = ''High''\<rparr>] else []) in
     bindE (getitem (data self) ''Inspection results'') (\<lambda>insp.
     let quality_issues = select_mask (col_eq_str insp ''Fail'') (data self);
         recs2 = recs1 @ (if labels quality_issues \<noteq> [] then
             [\<lparr>area = ''Quality'',
               issue = ''Quality failures in '' @ str_nat (length (labels quality_issues)) @ '' shipments'',
               action = ''Review supplier quality control processes'', priority = ''High''\<rparr>] else []) in
     bindE (getitem (data self) ''Costs'') (\<lambda>costs.
     bindE (getitem (data self) ''Costs'') (\<lambda>costs1. bindE (col_mean lib costs1) (\<lambda>m.
     bindE (getitem (data self) ''Costs'') (\<lambda>costs2. bindE (col_std lib costs2) (\<lambda>sd.
     bindE (col_gt_float lib costs (fadd lib m sd)) (\<lambda>high.
     let high_cost_routes = select_mask high (data self);
         recs3 = recs2 @ (if labels high_cost_routes \<noteq> [] then
             [\<lparr>area = ''Logistics'',
               issue = ''High shipping costs on '' @ str_nat (length (labels high_cost_routes)) @ '' routes'',
               action = ''Evaluate alternative shipping routes or carriers'', priority = ''Medium''\<rparr>] else [])
     in Inr (recs3, self))))))))))"

text \<open>
  A scalar of the report. \<^verbatim>\<open>Series.sum()\<close> of a numeric column is the arithmetic's;
  on an object column its result is the parameter \<open>osum\<close>.
\<close>

datatype 'o scalar = NumVal xreal | ObjVal 'o

fun col_sum :: "numerics \<Rightarrow> (string option list \<Rightarrow> error + 'o) \<Rightarrow> column \<Rightarrow> error + 'o scalar" where
  "col_sum lib osum (NumCol dt xs) = Inr (NumVal (series_sum lib dt xs))"
| "col_sum lib osum (ObjCol ss) = bindE (osum ss) (\<lambda>v. Inr (ObjVal v))"

record 'o overall_metrics =
  Total_Revenue :: "'o scalar"
  Total_Units_Sold :: "'o scalar"
  Average_Defect_Rate :: xreal
  Average_Lead_Time :: xreal

record 'o summary =
  overall :: "'o overall_metrics"
  Product_Performance :: "'o product_metrics option"
  Supplier_Performance :: "'o supplier_metrics option"
  Logistics_Performance :: "'o logistics_metrics option"

text \<open>
  \<^verbatim>\<open>x if x else None\<close>: \<open>None\<close> is falsy, and a dictionary is truthy when it has a
  key. Each of the three metrics dictionaries is built with three keys.
\<close>

definition if_truthy :: "nat \<Rightarrow> 'a option \<Rightarrow> 'a option" where
  "if_truthy n_keys slot = (case slot of None \<Rightarrow> None | Some d \<Rightarrow> if 0 < n_keys then Some d else None)"

definition generate_summary_report ::
    "numerics \<Rightarrow> (string option list \<Rightarrow> error + 'o) \<Rightarrow> 'o engine \<Rightarrow> error + ('o summary \<times> 'o engine)" where
  "generate_summary_report lib osum self =
     bindE (getitem (data self) ''Revenue generated'') (\<lambda>c1. bindE (col_sum lib osum c1) (\<lambda>revenue.
     bindE (getitem (data self) ''Number of products sold'') (\<lambda>c2. bindE (col_sum lib osum c2) (\<lambda>units.
     bindE (getitem (data self) ''Defect rates'') (\<lambda>c3. bindE (col_mean lib c3) (\<lambda>defect.
     bindE (getitem (data self) ''Lead time'') (\<lambda>c4. bindE (col_mean lib c4) (\<lambda>lead.
     Inr (\<lparr>overall = \<lparr>Total_Revenue = revenue, Total_Units_Sold = units,
                        Average_Defect_Rate = defect, Average_Lead_Time = lead\<rparr>,
            Product_Performance = if_truthy 3 (product_metrics self),
            Supplier_Performance = if_truthy 3 (supplier_metrics self),
            Logistics_Performance = if_truthy 3 (logistics_metrics self)\<rparr>, self)))))))))"

text \<open>
  A run of the engine: a sequence of method calls on one instance, as in
  \<^verbatim>\<open>main.py\<close>, where an exception ends the run.
\<close>

datatype operation = AnalyzeProduct | AnalyzeSupplier | AnalyzeLogistics
  | GetRiskAssessment | GenerateRecommendations | GenerateSummaryReport

fun call :: "numerics \<Rightarrow> (reducer \<Rightarrow> string option list list \<Rightarrow> error + 'o) \<Rightarrow>
    (string option list \<Rightarrow> error + 'o) \<Rightarrow> operation \<Rightarrow> 'o engine \<Rightarrow> error + 'o engine" where
  "call lib oa osum AnalyzeProduct self = analyze_product_performance lib oa self"
| "call lib oa osum AnalyzeSupplier self = analyze_supplier_performance lib oa self"
| "call lib oa osum AnalyzeLogistics self = analyze_logistics lib oa self"
| "call lib oa osum GetRiskAssessment self = bindE (get_risk_assessment lib self) (\<lambda>(r, self'). Inr self')"
| "call lib oa osum GenerateRecommendations self = bindE (generate_recommendations lib self) (\<lambda>(r, self'). Inr self')"
| "call lib oa osum GenerateSummaryReport self = bindE (generate_summary_report lib osum self) (\<lambda>(r, self'). Inr self')"

fun run :: "numerics \<Rightarrow> (reducer \<Rightarrow> string option list list \<Rightarrow> error + 'o) \<Rightarrow>
    (string option list \<Rightarrow> error + 'o) \<Rightarrow> operation list \<Rightarrow> 'o engine \<Rightarrow> error + 'o engine" where
  "run lib oa osum [] self = Inr self"
| "run lib oa osum (x # xs) self = bindE (call lib oa osum x self) (run lib oa osum xs)"

section \<open>The dashboard's derived scores\<close>

text \<open>
  \<^verbatim>\<open>dashboard.py\<close> reads the same file and adds two columns. An arithmetic
  operation with a missing operand gives NaN; a division by zero does not raise.
  \<^verbatim>\<open>clip(0, 100)\<close> bounds every number, the infinities included, and leaves NaN as
  it is. The left operand \<^verbatim>\<open>100 - df['Defect rates'] * 20\<close> is evaluated before
  \<^verbatim>\<open>df['Lead time']\<close> is looked up.
\<close>

definition lift2 :: "(real \<Rightarrow> real \<Rightarrow> xreal) \<Rightarrow> real option \<Rightarrow> real option \<Rightarrow> xreal" where
  "lift2 f x y = (case (x, y) of (Some a, Some b) \<Rightarrow> f a b | _ \<Rightarrow> XNaN)"

definition clip :: "real \<Rightarrow> real \<Rightarrow> xreal \<Rightarrow> real option" where
  "clip lo hi v = (case v of Fin a \<Rightarrow> Some (min (max a lo) hi) | PInf \<Rightarrow> Some hi | MInf \<Rightarrow> Some lo | XNaN \<Rightarrow> None)"

text \<open>\<^verbatim>\<open>df[name] = col\<close>: replaces the column of that name, or appends a new one.\<close>

definition setitem :: "frame \<Rightarrow> string \<Rightarrow> column \<Rightarrow> frame" where
  "setitem df name c = df\<lparr>cols := AList.update name c (cols df)\<rparr>"

definition efficiency_score :: "numerics \<Rightarrow> frame \<Rightarrow> error + column" where
  "efficiency_score lib df =
     bindE (getitem df ''Defect rates'') (\<lambda>d. bindE (as_numeric d) (\<lambda>ds.
     bindE (getitem df ''Lead time'') (\<lambda>l. bindE (as_numeric l) (\<lambda>ls.
     Inr (NumCol Float64 (map (\<lambda>(a, b).
            clip 0 100 (lift2 (efficiency_of lib (numeric_dtype d) (numeric_dtype l)) a b)) (zip ds ls)))))))"

definition cost_effectiveness :: "numerics \<Rightarrow> frame \<Rightarrow> error + column" where
  "cost_effectiveness lib df =
     bindE (getitem df ''Revenue generated'') (\<lambda>r. bindE (getitem df ''Manufacturing costs'') (\<lambda>m.
     bindE (as_numeric r) (\<lambda>rs. bindE (as_numeric m) (\<lambda>ms.
     Inr (NumCol Float64 (map (\<lambda>(a, b).
            clip 0 100 (lift2 (ratio_of lib (numeric_dtype r) (numeric_dtype m)) a b)) (zip rs ms)))))))"

definition dashboard_frame :: "numerics \<Rightarrow> (string \<Rightarrow> csv_file) \<Rightarrow> error + frame" where
  "dashboard_frame lib fs =
     bindE (read_csv fs ''data/supply_chain_data.csv'') (\<lambda>df.
     bindE (efficiency_score lib df) (\<lambda>e. let df1 = setitem df ''efficiency_score'' e in
     bindE (cost_effectiveness lib df1) (\<lambda>c. Inr (setitem df1 ''cost_effectiveness'' c))))"

section \<open>The mean and the standard deviation of real numbers\<close>

text \<open>
  The mean and the sample standard deviation (divisor \<open>n - 1\<close>) of the present values,
  and the sum of two numbers, in exact arithmetic: what the arithmetic of pandas
  approximates, and returns whenever every intermediate result is representable.
\<close>

fun xadd :: "xreal \<Rightarrow> xreal \<Rightarrow> xreal" where
  "xadd (Fin a) (Fin b) = Fin (a + b)"
| "xadd XNaN y = XNaN"
| "xadd x XNaN = XNaN"
| "xadd PInf MInf = XNaN"
| "xadd MInf PInf = XNaN"
| "xadd PInf y = PInf"
| "xadd x PInf = PInf"
| "xadd MInf y = MInf"
| "xadd x MInf = MInf"

definition exact_mean :: "real option list \<Rightarrow> xreal" where
  "exact_mean xs = (let vs = present xs in if vs = [] then XNaN else Fin (sum_list vs / real (length vs)))"

definition exact_std :: "real option list \<Rightarrow> xreal" where
  "exact_std xs = (let vs = present xs; n = length vs in
     if n < 2 then XNaN
     else let m = sum_list vs / real n in
       Fin (sqrt (sum_list (map (\<lambda>v. (v - m)\<^sup>2) vs) / real (n - 1))))"

section \<open>The risk predicates as the specification words them\<close>

text \<open>
  One record's four predicates, with strict comparisons; a comparison with a missing
  value is false. The cost threshold is the mean of the manufacturing costs over all
  records, as the arithmetic computes it.
\<close>

definition spec_stock_risk :: "real option \<Rightarrow> bool" where
  "spec_stock_risk stock_level = (case stock_level of None \<Rightarrow> False | Some v \<Rightarrow> v < 20)"

definition spec_lead_time_risk :: "real option \<Rightarrow> bool" where
  "spec_lead_time_risk lead_time_days = (case lead_time_days of None \<Rightarrow> False | Some v \<Rightarrow> v > 20)"

definition spec_quality_risk :: "real option \<Rightarrow> bool" where
  "spec_quality_risk defect_rate = (case defect_rate of None \<Rightarrow> False | Some v \<Rightarrow> v > 3)"

definition spec_cost_risk :: "xreal \<Rightarrow> real option \<Rightarrow> bool" where
  "spec_cost_risk mean_cost manufacturing_cost =
     (case manufacturing_cost of None \<Rightarrow> False
      | Some v \<Rightarrow> (case mean_cost of Fin m \<Rightarrow> v > m | MInf \<Rightarrow> True | PInf \<Rightarrow> False | XNaN \<Rightarrow> False))"

text \<open>The cost predicate against the exact mean.\<close>

definition spec_cost_risk_exact :: "real option list \<Rightarrow> real option \<Rightarrow> bool" where
  "spec_cost_risk_exact all_costs manufacturing_cost =
     (case manufacturing_cost of None \<Rightarrow> False
      | Some v \<Rightarrow> present all_costs \<noteq> [] \<and> v > sum_list (present all_costs) / real (length (present all_costs)))"

definition spec_score :: "xreal \<Rightarrow> real option list \<Rightarrow> real option list \<Rightarrow> real option list \<Rightarrow>
    real option list \<Rightarrow> nat \<Rightarrow> nat" where
  "spec_score mean_cost stock lead defect cost p =
     of_bool (spec_stock_risk (stock ! p)) + of_bool (spec_lead_time_risk (lead ! p)) +
     of_bool (spec_quality_risk (defect ! p)) + of_bool (spec_cost_risk mean_cost (cost ! p))"

section \<open>The recommendation rules as the specification words them\<close>

text \<open>
  The three rules, each with the number of records that match it: a low stock level,
  a failed inspection, a cost above the mean plus the standard deviation over all
  records (as the arithmetic computes them). A rule emits its entry when at least one
  record matches.
\<close>

definition spec_low_stock :: "real option list \<Rightarrow> nat" where
  "spec_low_stock stock = length (filter spec_stock_risk stock)"

fun spec_failed_inspections :: "column \<Rightarrow> nat" where
  "spec_failed_inspections (ObjCol ss) = length (filter (\<lambda>x. x = Some ''Fail'') ss)"
| "spec_failed_inspections (NumCol dt xs) = 0"

definition cost_threshold :: "numerics \<Rightarrow> dtype \<Rightarrow> real option list \<Rightarrow> xreal" where
  "cost_threshold lib dt all_costs = fadd lib (series_mean lib dt all_costs) (series_std lib dt all_costs)"

definition spec_cost_outlier :: "xreal \<Rightarrow> real option \<Rightarrow> bool" where
  "spec_cost_outlier threshold cost =
     (case cost of None \<Rightarrow> False
      | Some v \<Rightarrow> (case threshold of Fin t \<Rightarrow> v > t | MInf \<Rightarrow> True | PInf \<Rightarrow> False | XNaN \<Rightarrow> False))"

text \<open>The outlier predicate against the exact mean plus the exact standard deviation.\<close>

definition spec_cost_outlier_exact :: "real option list \<Rightarrow> real option \<Rightarrow> bool" where
  "spec_cost_outlier_exact all_costs cost =
     (case cost of None \<Rightarrow> False
      | Some v \<Rightarrow> (case (exact_mean all_costs, exact_std all_costs) of
          (Fin m, Fin sd) \<Rightarrow> v > m + sd
        | _ \<Rightarrow> False))"

definition spec_high_costs :: "numerics \<Rightarrow> dtype \<Rightarrow> real option list \<Rightarrow> nat" where
  "spec_high_costs lib dt costs =
     length (filter (spec_cost_outlier (cost_threshold lib dt costs)) (float_cells lib dt costs))"

definition spec_recommendations :: "nat \<Rightarrow> nat \<Rightarrow> nat \<Rightarrow> recommendation list" where
  "spec_recommendations n_low n_fail n_high =
     (if 0 < n_low then
        [\<lparr>area = ''Inventory'', issue = ''Low stock alerts for '' @ str_nat n_low @ '' SKUs'',
          action = ''Reorder stocks for affected SKUs'', priority = ''High''\<rparr>] else []) @
     (if 0 < n_fail then
        [\<lparr>area = ''Quality'', issue = ''Quality failures in '' @ str_nat n_fail @ '' shipments'',
          action = ''Review supplier quality control processes'', priority = ''High''\<rparr>] else []) @
     (if 0 < n_high then
        [\<lparr>area = ''Logistics'', issue = ''High shipping costs on '' @ str_nat n_high @ '' routes'',
          action = ''Evaluate alternative shipping routes or carriers'', priority = ''Medium''\<rparr>] else [])"

section \<open>Key order and score range as the specification words them\<close>

text \<open>The distinct present values of a column in the order of their first appearance.\<close>

definition first_appearance :: "'k option list \<Rightarrow> 'k list" where
  "first_appearance ks = rev (remdups (rev (present ks)))"

text \<open>A derived score lies in the interval from 0 to 100.\<close>

definition spec_in_range :: "real option \<Rightarrow> bool" where
  "spec_in_range score = (case score of None \<Rightarrow> False | Some v \<Rightarrow> 0 \<le> v \<and> v \<le> 100)"

section \<open>A small data set\<close>

text \<open>
  Exact arithmetic as an arithmetic of the model: it is what binary64 arithmetic
  computes on the data below, where all sums, means and deviations are integers or
  halves. Equal values are sorted in row order. It serves to evaluate the examples only.
\<close>

fun exact_group_cell :: "reducer \<Rightarrow> real option list \<Rightarrow> xreal" where
  "exact_group_cell RSum xs = Fin (sum_list (present xs))"
| "exact_group_cell RMean xs = exact_mean xs"
| "exact_group_cell RCount xs = Fin (real (length (present xs)))"
| "exact_group_cell RMin xs = (case present xs of [] \<Rightarrow> XNaN | v # vs \<Rightarrow> Fin (fold min vs v))"
| "exact_group_cell RMax xs = (case present xs of [] \<Rightarrow> XNaN | v # vs \<Rightarrow> Fin (fold max vs v))"

definition exact_ratio :: "real \<Rightarrow> real \<Rightarrow> xreal" where
  "exact_ratio r m = (if m \<noteq> 0 then Fin (r / m) else if 0 < r then PInf else if r < 0 then MInf else XNaN)"

definition exact_arith :: numerics where
  "exact_arith = \<lparr>
     series_sum = (\<lambda>dt xs. Fin (sum_list (present xs))),
     series_mean = (\<lambda>dt xs. exact_mean xs),
     series_std = (\<lambda>dt xs. exact_std xs),
     group_cell = (\<lambda>r dt xs. exact_group_cell r xs),
     to_float = (\<lambda>x. x),
     fadd = xadd,
     sort_desc = (\<lambda>dt xs. stable_desc xs),
     efficiency_of = (\<lambda>dt1 dt2 d l. Fin (100 - d * 20 - l / 30 * 100)),
     ratio_of = (\<lambda>dt1 dt2 r m. exact_ratio r m)\<rparr>"

text \<open>
  Three records with every column the engine reads; the stock levels and defect rates
  are those of the specification's example.
\<close>

definition example_frame :: frame where
  "example_frame = \<lparr>nrows = 3, cols = [
     (''Product type'', ObjCol [Some ''skincare'', Some ''haircare'', Some ''skincare'']),
     (''SKU'', ObjCol [Some ''SKU0'', Some ''SKU1'', Some ''SKU2'']),
     (''Revenue generated'', NumCol Float64 [Some 100, Some 300, Some 300]),
     (''Number of products sold'', NumCol Int64 [Some 10, Some 20, Some 30]),
     (''Stock levels'', NumCol Int64 [Some 5, Some 25, Some 100]),
     (''Lead times'', NumCol Int64 [Some 7, Some 30, Some 10]),
     (''Supplier name'', ObjCol [Some ''Supplier 2'', Some ''Supplier 1'', Some ''Supplier 2'']),
     (''Location'', ObjCol [Some ''Mumbai'', Some ''Delhi'', Some ''Mumbai'']),
     (''Lead time'', NumCol Int64 [Some 29, Some 23, Some 14]),
     (''Production volumes'', NumCol Int64 [Some 215, Some 517, Some 971]),
     (''Manufacturing costs'', NumCol Float64 [Some 45, Some 33, Some 30]),
     (''Inspection results'', ObjCol [Some ''Pass'', Some ''Pending'', Some ''Pass'']),
     (''Defect rates'', NumCol Float64 [Some 0, Some 0, Some 0]),
     (''Shipping carriers'', ObjCol [Some ''Carrier B'', Some ''Carrier A'', Some ''Carrier B'']),
     (''Shipping times'', NumCol Int64 [Some 4, Some 2, Some 6]),
     (''Shipping costs'', NumCol Float64 [Some 3, Some 9, Some 8]),
     (''Transportation modes'', ObjCol [Some ''Road'', Some ''Air'', Some ''Road'']),
     (''Routes'', ObjCol [Some ''Route B'', Some ''Route A'', Some ''Route B'']),
     (''Costs'', NumCol Float64 [Some 10, Some 10, Some 10])]\<rparr>"

definition example_engine :: "unit engine" where
  "example_engine = \<lparr>data = example_frame, product_metrics = None, supplier_metrics = None,
     logistics_metrics = None\<rparr>"

text \<open>
  No numeric column of the example holds a string, so the reducers on object columns
  are never reached; the example fixes them to raise. The example file system holds the
  data set under the path that \<^verbatim>\<open>main.py\<close> and \<^verbatim>\<open>dashboard.py\<close> read.
\<close>

definition no_object_agg :: "reducer \<Rightarrow> string option list list \<Rightarrow> error + unit" where
  "no_object_agg r gs = Inl TypeError"

definition no_object_sum :: "string option list \<Rightarrow> error + unit" where
  "no_object_sum ss = Inl TypeError"

definition example_files :: "string \<Rightarrow> csv_file" where
  "example_files path = (if path = ''data/supply_chain_data.csv'' then Parsed example_frame else Missing)"







text \<open>A file of one record whose revenue cell is empty.\<close>

definition gap_frame :: frame where
  "gap_frame = \<lparr>nrows = 1, cols = [
     (''Revenue generated'', NumCol Float64 [None]),
     (''Lead time'', NumCol Int64 [Some 30]),
     (''Manufacturing costs'', NumCol Float64 [Some 10]),
     (''Defect rates'', NumCol Float64 [Some 0])]\<rparr>"

definition gap_files :: "string \<Rightarrow> csv_file" where
  "gap_files path = (if path = ''data/supply_chain_data.csv'' then Parsed gap_frame else Missing)"

section \<open>Basic facts\<close>

lemma bindE_Inr [simp]: "bindE (Inr x) f = f x"
  by (simp add: bindE_def)

lemma bindE_Inl [simp]: "bindE (Inl e) f = Inl e"
  by (simp add: bindE_def)

lemma bindE_eq_Inr: "bindE m f = Inr y \<longleftrightarrow> (\<exists>x. m = Inr x \<and> f x = Inr y)"
  by (cases m) simp_all

lemma wf_frame_col_len: "wf_frame df \<Longrightarrow> map_of (cols df) name = Some c \<Longrightarrow> col_len c = nrows df"
  by (auto simp: wf_frame_def list_all_iff dest!: map_of_SomeD)

lemma getitem_Some [simp]: "map_of (cols df) name = Some c \<Longrightarrow> getitem df name = Inr c"
  by (simp add: getitem_def)

lemma getitem_eq_Inr: "getitem df name = Inr c \<longleftrightarrow> map_of (cols df) name = Some c"
  by (simp add: getitem_def split: option.splits)

lemma wf_example_frame: "wf_frame example_frame"
  by (simp add: example_frame_def wf_frame_def)

lemma length_float_cells [simp]: "length (float_cells lib dt xs) = length xs"
  by (cases dt) (simp_all add: float_cells_def)

lemma float_cells_exact [simp]: "float_cells exact_arith dt xs = xs"
  by (cases dt) (simp_all add: float_cells_def exact_arith_def map_idI option.map_ident)

section \<open>Risk assessment\<close>

lemma count_true_4: "count_true [a, b, c, d] = of_bool a + of_bool b + of_bool c + of_bool d"
  by (simp add: count_true_def)

lemma lt_cell_stock: "lt_cell x (Some 20) = spec_stock_risk x"
  by (simp add: lt_cell_def spec_stock_risk_def split: option.splits)

lemma lt_cell_lead: "lt_cell (Some 20) x = spec_lead_time_risk x"
  by (simp add: lt_cell_def spec_lead_time_risk_def split: option.splits)

lemma lt_cell_quality: "lt_cell (Some 3) x = spec_quality_risk x"
  by (simp add: lt_cell_def spec_quality_risk_def split: option.splits)

lemma gt_scalar_cost: "gt_scalar x m = spec_cost_risk m x"
  by (cases x; cases m) (simp_all add: spec_cost_risk_def)

lemma spec_cost_risk_exact_mean: "spec_cost_risk (exact_mean xs) x = spec_cost_risk_exact xs x"
  by (simp add: spec_cost_risk_def spec_cost_risk_exact_def exact_mean_def Let_def split: option.splits)

text \<open>
  Claim C1. On a loaded table whose four risk columns are numeric,
  \<open>get_risk_assessment\<close> returns, in row order, exactly the rows whose score is at least
  two; each returned row carries the four predicates of the specification (strict
  comparisons, the cost threshold being the mean over all records that
  \<^verbatim>\<open>Series.mean()\<close> returns, whatever the arithmetic), and its score is the number of
  true predicates, between 0 and 4. The engine is returned unchanged. Whenever that
  mean is the exact mean, the cost predicate is the comparison with the exact mean.
\<close>

theorem risk_assessment_contract:
  assumes wf: "wf_frame (data self)"
    and sku: "map_of (cols (data self)) ''SKU'' = Some sku"
    and stock: "map_of (cols (data self)) ''Stock levels'' = Some (NumCol dt1 stock)"
    and lead: "map_of (cols (data self)) ''Lead time'' = Some (NumCol dt2 lead)"
    and defect: "map_of (cols (data self)) ''Defect rates'' = Some (NumCol dt3 defect)"
    and mcost: "map_of (cols (data self)) ''Manufacturing costs'' = Some (NumCol dt4 mcost)"
  shows "\<exists>rs. get_risk_assessment lib self = Inr (rs, self) \<and>
     map label rs = filter (\<lambda>p. 2 \<le> spec_score (series_mean lib dt4 mcost) stock lead defect
                                       (float_cells lib dt4 mcost) p) [0..<nrows (data self)] \<and>
     (\<forall>r \<in> set rs.
        SKU r = cell_at sku (label r) \<and>
        Stock_Risk r = spec_stock_risk (stock ! label r) \<and>
        Lead_Time_Risk r = spec_lead_time_risk (lead ! label r) \<and>
        Quality_Risk r = spec_quality_risk (defect ! label r) \<and>
        Cost_Risk r = spec_cost_risk (series_mean lib dt4 mcost) (float_cells lib dt4 mcost ! label r) \<and>
        Total_Risk_Score r = of_bool (Stock_Risk r) + of_bool (Lead_Time_Risk r) +
                             of_bool (Quality_Risk r) + of_bool (Cost_Risk r) \<and>
        Total_Risk_Score r \<le> 4) \<and>
     (series_mean lib dt4 mcost = exact_mean mcost \<longrightarrow>
        (\<forall>r \<in> set rs. Cost_Risk r = spec_cost_risk_exact mcost (float_cells lib dt4 mcost ! label r)))"
proof -
  let ?n = "nrows (data self)"
  let ?m = "series_mean lib dt4 mcost"
  let ?fc = "float_cells lib dt4 mcost"
  have len: "length stock = ?n" "length lead = ?n" "length defect = ?n" "length mcost = ?n"
    using wf_frame_col_len[OF wf stock] wf_frame_col_len[OF wf lead]
      wf_frame_col_len[OF wf defect] wf_frame_col_len[OF wf mcost] by simp_all
  define row where "row = (\<lambda>p. \<lparr>label = p, SKU = cell_at sku p,
       Stock_Risk = spec_stock_risk (stock ! p), Lead_Time_Risk = spec_lead_time_risk (lead ! p),
       Quality_Risk = spec_quality_risk (defect ! p), Cost_Risk = spec_cost_risk ?m (?fc ! p),
       Total_Risk_Score = spec_score ?m stock lead defect ?fc p\<rparr>)"
  have rows: "map (\<lambda>p. \<lparr>label = p, SKU = cell_at sku p,
         Stock_Risk = map (\<lambda>x. lt_cell x (Some 20)) stock ! p,
         Lead_Time_Risk = map (\<lambda>x. lt_cell (Some 20) x) lead ! p,
         Quality_Risk = map (\<lambda>x. lt_cell (Some 3) x) defect ! p,
         Cost_Risk = map (\<lambda>x. gt_scalar x ?m) ?fc ! p,
         Total_Risk_Score = count_true [map (\<lambda>x. lt_cell x (Some 20)) stock ! p,
           map (\<lambda>x. lt_cell (Some 20) x) lead ! p, map (\<lambda>x. lt_cell (Some 3) x) defect ! p,
           map (\<lambda>x. gt_scalar x ?m) ?fc ! p]\<rparr>) [0..<?n] = map row [0..<?n]"
    by (rule map_cong[OF refl])
       (simp add: row_def len count_true_4 spec_score_def lt_cell_stock lt_cell_lead lt_cell_quality
          gt_scalar_cost)
  have res: "get_risk_assessment lib self = Inr (filter (\<lambda>r. 2 \<le> Total_Risk_Score r) (map row [0..<?n]), self)"
    unfolding get_risk_assessment_def
    by (simp add: sku stock lead defect mcost col_lt_def col_gt_def col_gt_float_def Let_def rows)
  have lab: "map label (filter (\<lambda>r. 2 \<le> Total_Risk_Score r) (map row [0..<?n]))
      = filter (\<lambda>p. 2 \<le> spec_score ?m stock lead defect ?fc p) [0..<?n]"
    by (simp add: filter_map o_def row_def)
  have each: "\<forall>r \<in> set (filter (\<lambda>r. 2 \<le> Total_Risk_Score r) (map row [0..<?n])).
        SKU r = cell_at sku (label r) \<and>
        Stock_Risk r = spec_stock_risk (stock ! label r) \<and>
        Lead_Time_Risk r = spec_lead_time_risk (lead ! label r) \<and>
        Quality_Risk r = spec_quality_risk (defect ! label r) \<and>
        Cost_Risk r = spec_cost_risk ?m (?fc ! label r) \<and>
        Total_Risk_Score r = of_bool (Stock_Risk r) + of_bool (Lead_Time_Risk r) +
                             of_bool (Quality_Risk r) + of_bool (Cost_Risk r) \<and>
        Total_Risk_Score r \<le> 4"
    by (auto simp: row_def spec_score_def of_bool_def split: if_splits)
  have exact: "series_mean lib dt4 mcost = exact_mean mcost \<longrightarrow>
        (\<forall>r \<in> set (filter (\<lambda>r. 2 \<le> Total_Risk_Score r) (map row [0..<?n])).
           Cost_Risk r = spec_cost_risk_exact mcost (?fc ! label r))"
    by (auto simp: row_def spec_cost_risk_exact_mean)
  show ?thesis using res lab each exact by blast
qed

theorem risk_assessment_contract_witness:
  "wf_frame (data example_engine) \<and>
   (\<exists>rs. get_risk_assessment exact_arith example_engine = Inr (rs, example_engine) \<and> map label rs = [0] \<and>
      (\<forall>r \<in> set rs. Stock_Risk r \<and> Lead_Time_Risk r \<and> \<not> Quality_Risk r \<and> Cost_Risk r \<and>
         Total_Risk_Score r = 3))"
proof -
  have wf: "wf_frame (data example_engine)"
    by (simp add: example_engine_def wf_example_frame)
  have sku: "map_of (cols (data example_engine)) ''SKU'' = Some (ObjCol [Some ''SKU0'', Some ''SKU1'', Some ''SKU2''])"
    by (simp add: example_engine_def example_frame_def)
  have stock: "map_of (cols (data example_engine)) ''Stock levels'' = Some (NumCol Int64 [Some 5, Some 25, Some 100])"
    by (simp add: example_engine_def example_frame_def)
  have lead: "map_of (cols (data example_engine)) ''Lead time'' = Some (NumCol Int64 [Some 29, Some 23, Some 14])"
    by (simp add: example_engine_def example_frame_def)
  have defect: "map_of (cols (data example_engine)) ''Defect rates'' = Some (NumCol Float64 [Some 0, Some 0, Some 0])"
    by (simp add: example_engine_def example_frame_def)
  have mcost: "map_of (cols (data example_engine)) ''Manufacturing costs'' = Some (NumCol Float64 [Some 45, Some 33, Some 30])"
    by (simp add: example_engine_def example_frame_def)
  have n: "nrows (data example_engine) = 3"
    by (simp add: example_engine_def example_frame_def)
  have upt: "[0..<3] = [0, 1, 2]"
    by (simp add: upt_rec)
  have m: "series_mean exact_arith Float64 [Some 45, Some 33, Some 30] = Fin 36"
    by (simp add: exact_arith_def exact_mean_def present_def List.map_filter_def)
  have flt: "filter (\<lambda>p. 2 \<le> spec_score (Fin 36) [Some 5, Some 25, Some 100] [Some 29, Some 23, Some 14]
        [Some 0, Some 0, Some 0] [Some 45, Some 33, Some 30] p) [0, 1, 2] = [0]"
    by (simp add: spec_score_def spec_stock_risk_def spec_lead_time_risk_def spec_quality_risk_def
        spec_cost_risk_def)
  from risk_assessment_contract[OF wf sku stock lead defect mcost, of exact_arith]
  obtain rs where rs: "get_risk_assessment exact_arith example_engine = Inr (rs, example_engine)"
      "map label rs = [0]"
      "\<forall>r \<in> set rs.
        Stock_Risk r = spec_stock_risk ([Some 5, Some 25, Some 100] ! label r) \<and>
        Lead_Time_Risk r = spec_lead_time_risk ([Some 29, Some 23, Some 14] ! label r) \<and>
        Quality_Risk r = spec_quality_risk ([Some 0, Some 0, Some 0] ! label r) \<and>
        Cost_Risk r = spec_cost_risk (Fin 36) ([Some 45, Some 33, Some 30] ! label r) \<and>
        Total_Risk_Score r = of_bool (Stock_Risk r) + of_bool (Lead_Time_Risk r) +
                             of_bool (Quality_Risk r) + of_bool (Cost_Risk r)"
    unfolding n upt m float_cells_exact flt by (elim exE conjE) simp
  have "\<forall>r \<in> set rs. label r = 0"
    using rs(2) by (metis list.set_map imageI list.simps(15) empty_set singletonD)
  then have "\<forall>r \<in> set rs. Stock_Risk r \<and> Lead_Time_Risk r \<and> \<not> Quality_Risk r \<and> Cost_Risk r \<and>
         Total_Risk_Score r = 3"
    using rs(3)
    by (simp add: spec_stock_risk_def spec_lead_time_risk_def spec_quality_risk_def
        spec_cost_risk_def)
  with wf rs(1,2) show ?thesis by (intro conjI exI[of _ rs]) simp_all
qed

section \<open>State\<close>

lemma get_risk_assessment_state: "get_risk_assessment lib self = Inr (rs, self') \<Longrightarrow> self' = self"
  unfolding get_risk_assessment_def by (auto simp: bindE_eq_Inr Let_def)

lemma generate_recommendations_state: "generate_recommendations lib self = Inr (rs, self') \<Longrightarrow> self' = self"
  unfolding generate_recommendations_def by (auto simp: bindE_eq_Inr Let_def)

lemma generate_summary_report_state: "generate_summary_report lib osum self = Inr (rep, self') \<Longrightarrow> self' = self"
  unfolding generate_summary_report_def by (auto simp: bindE_eq_Inr Let_def)

lemma analyze_product_performance_eq:
  "analyze_product_performance lib oa self = Inr self' \<longleftrightarrow>
     (\<exists>d. product_metrics_dict lib oa (data self) = Inr d \<and> self' = self\<lparr>product_metrics := Some d\<rparr>)"
  by (auto simp: analyze_product_performance_def bindE_eq_Inr)

lemma analyze_supplier_performance_eq:
  "analyze_supplier_performance lib oa self = Inr self' \<longleftrightarrow>
     (\<exists>d. supplier_metrics_dict lib oa (data self) = Inr d \<and> self' = self\<lparr>supplier_metrics := Some d\<rparr>)"
  by (auto simp: analyze_supplier_performance_def bindE_eq_Inr)

lemma analyze_logistics_eq:
  "analyze_logistics lib oa self = Inr self' \<longleftrightarrow>
     (\<exists>d. logistics_metrics_dict lib oa (data self) = Inr d \<and> self' = self\<lparr>logistics_metrics := Some d\<rparr>)"
  by (auto simp: analyze_logistics_def bindE_eq_Inr)

lemma call_frame:
  assumes "call lib oa osum x self = Inr self'"
  shows "data self' = data self"
    and "x \<noteq> AnalyzeProduct \<Longrightarrow> product_metrics self' = product_metrics self"
    and "x \<noteq> AnalyzeSupplier \<Longrightarrow> supplier_metrics self' = supplier_metrics self"
    and "x \<noteq> AnalyzeLogistics \<Longrightarrow> logistics_metrics self' = logistics_metrics self"
    and "x = AnalyzeProduct \<Longrightarrow> \<exists>d. product_metrics_dict lib oa (data self) = Inr d \<and> product_metrics self' = Some d"
    and "x = AnalyzeSupplier \<Longrightarrow> \<exists>d. supplier_metrics_dict lib oa (data self) = Inr d \<and> supplier_metrics self' = Some d"
    and "x = AnalyzeLogistics \<Longrightarrow> \<exists>d. logistics_metrics_dict lib oa (data self) = Inr d \<and> logistics_metrics self' = Some d"
  using assms
  by (cases x; auto simp: analyze_product_performance_eq analyze_supplier_performance_eq
      analyze_logistics_eq bindE_eq_Inr
      dest: get_risk_assessment_state generate_recommendations_state generate_summary_report_state)+

lemma run_Cons_Inr:
  "run lib oa osum (x # xs) self = Inr self' \<longleftrightarrow>
     (\<exists>s1. call lib oa osum x self = Inr s1 \<and> run lib oa osum xs s1 = Inr self')"
  by (simp add: bindE_eq_Inr)

lemma run_data: "run lib oa osum xs self = Inr self' \<Longrightarrow> data self' = data self"
  by (induction xs arbitrary: self) (auto simp: bindE_eq_Inr dest: call_frame(1))

lemma run_product:
  "run lib oa osum xs self = Inr self' \<Longrightarrow>
     (if AnalyzeProduct \<in> set xs
      then \<exists>d. product_metrics_dict lib oa (data self) = Inr d \<and> product_metrics self' = Some d
      else product_metrics self' = product_metrics self)"
proof (induction xs arbitrary: self)
  case Nil
  then show ?case by simp
next
  case (Cons x xs)
  from Cons.prems obtain s1 where s1: "call lib oa osum x self = Inr s1" and r: "run lib oa osum xs s1 = Inr self'"
    by (auto simp: bindE_eq_Inr)
  note ih = Cons.IH[OF r]
  have d: "data s1 = data self" using call_frame(1)[OF s1] .
  show ?case
  proof (cases "AnalyzeProduct \<in> set xs")
    case True
    with ih d show ?thesis by simp
  next
    case False
    with ih have eq: "product_metrics self' = product_metrics s1" by simp
    show ?thesis
    proof (cases "x = AnalyzeProduct")
      case True
      with call_frame(5)[OF s1] eq show ?thesis by simp
    next
      case False
      with call_frame(2)[OF s1] eq \<open>AnalyzeProduct \<notin> set xs\<close> show ?thesis by simp
    qed
  qed
qed

lemma run_supplier:
  "run lib oa osum xs self = Inr self' \<Longrightarrow>
     (if AnalyzeSupplier \<in> set xs
      then \<exists>d. supplier_metrics_dict lib oa (data self) = Inr d \<and> supplier_metrics self' = Some d
      else supplier_metrics self' = supplier_metrics self)"
proof (induction xs arbitrary: self)
  case Nil
  then show ?case by simp
next
  case (Cons x xs)
  from Cons.prems obtain s1 where s1: "call lib oa osum x self = Inr s1" and r: "run lib oa osum xs s1 = Inr self'"
    by (auto simp: bindE_eq_Inr)
  note ih = Cons.IH[OF r]
  have d: "data s1 = data self" using call_frame(1)[OF s1] .
  show ?case
  proof (cases "AnalyzeSupplier \<in> set xs")
    case True
    with ih d show ?thesis by simp
  next
    case False
    with ih have eq: "supplier_metrics self' = supplier_metrics s1" by simp
    show ?thesis
    proof (cases "x = AnalyzeSupplier")
      case True
      with call_frame(6)[OF s1] eq show ?thesis by simp
    next
      case False
      with call_frame(3)[OF s1] eq \<open>AnalyzeSupplier \<notin> set xs\<close> show ?thesis by simp
    qed
  qed
qed

lemma run_logistics:
  "run lib oa osum xs self = Inr self' \<Longrightarrow>
     (if AnalyzeLogistics \<in> set xs
      then \<exists>d. logistics_metrics_dict lib oa (data self) = Inr d \<and> logistics_metrics self' = Some d
      else logistics_metrics self' = logistics_metrics self)"
proof (induction xs arbitrary: self)
  case Nil
  then show ?case by simp
next
  case (Cons x xs)
  from Cons.prems obtain s1 where s1: "call lib oa osum x self = Inr s1" and r: "run lib oa osum xs s1 = Inr self'"
    by (auto simp: bindE_eq_Inr)
  note ih = Cons.IH[OF r]
  have d: "data s1 = data self" using call_frame(1)[OF s1] .
  show ?case
  proof (cases "AnalyzeLogistics \<in> set xs")
    case True
    with ih d show ?thesis by simp
  next
    case False
    with ih have eq: "logistics_metrics self' = logistics_metrics s1" by simp
    show ?thesis
    proof (cases "x = AnalyzeLogistics")
      case True
      with call_frame(7)[OF s1] eq show ?thesis by simp
    next
      case False
      with call_frame(4)[OF s1] eq \<open>AnalyzeLogistics \<notin> set xs\<close> show ?thesis by simp
    qed
  qed
qed

lemma summary_slots:
  "generate_summary_report lib osum self = Inr (rep, self') \<Longrightarrow>
     Product_Performance rep = product_metrics self \<and>
     Supplier_Performance rep = supplier_metrics self \<and>
     Logistics_Performance rep = logistics_metrics self"
  unfolding generate_summary_report_def
  by (auto simp: bindE_eq_Inr if_truthy_def split: option.splits)

section \<open>The example, evaluated\<close>

lemma upt3: "[0..<3] = [0, 1, 2]"
  by (simp add: upt_rec)

lemma example_product: "\<exists>d. product_metrics_dict exact_arith no_object_agg example_frame = Inr d"
  by (simp add: product_metrics_dict_def example_frame_def groupby_agg_def agg_round_def
      group_keys_def present_def List.map_filter_def less_key_def group_positions_def upt3
      nlargest_def nlargest_positions_def take_rows_def project_def Let_def col_lt_def
      select_mask_def mask_positions_def lt_cell_def)

lemma example_supplier: "\<exists>d. supplier_metrics_dict exact_arith no_object_agg example_frame = Inr d"
  by (simp add: supplier_metrics_dict_def example_frame_def groupby_agg_def agg_round_def
      group_keys_def present_def List.map_filter_def less_key_def group_positions_def upt3
      groupby2_size_def pair_keys_def take_rows_def project_def Let_def
      select_mask_def mask_positions_def)

lemma example_logistics: "\<exists>d. logistics_metrics_dict exact_arith no_object_agg example_frame = Inr d"
  by (simp add: logistics_metrics_dict_def example_frame_def groupby_agg_def groupby2_agg_def agg_round_def
      group_keys_def present_def List.map_filter_def less_key_def group_positions_def upt3
      pair_keys_def Let_def)

lemma example_risk: "\<exists>rs. get_risk_assessment exact_arith example_engine = Inr (rs, example_engine)"
  by (simp add: get_risk_assessment_def example_engine_def example_frame_def col_lt_def col_gt_def
      col_gt_float_def Let_def)

lemma example_summary:
  "data s = example_frame \<Longrightarrow> \<exists>rep. generate_summary_report exact_arith no_object_sum s = Inr (rep, s)"
  by (simp add: generate_summary_report_def example_frame_def)

lemma example_recommendations:
  "\<exists>recs. generate_recommendations exact_arith example_engine = Inr (recs, example_engine)"
  by (simp add: generate_recommendations_def example_engine_def example_frame_def col_lt_def
      col_gt_float_def Let_def)

lemma example_run_two:
  "\<exists>s. run exact_arith no_object_agg no_object_sum [AnalyzeLogistics, AnalyzeProduct] example_engine = Inr s"
proof -
  obtain d1 where d1: "logistics_metrics_dict exact_arith no_object_agg example_frame = Inr d1"
    using example_logistics by blast
  obtain d2 where d2: "product_metrics_dict exact_arith no_object_agg example_frame = Inr d2"
    using example_product by blast
  have "data example_engine = example_frame" by (simp add: example_engine_def)
  then show ?thesis
    by (simp add: analyze_logistics_def analyze_product_performance_def d1 d2)
qed

section \<open>Claims about the engine's state\<close>

text \<open>
  Claim C10. \<open>get_risk_assessment\<close> and \<open>generate_recommendations\<close> return their result
  and leave the engine as it was: the input table and the three slots are unchanged, so
  a summary report generated afterwards is the one that would have been generated before.
\<close>

theorem queries_leave_engine_unchanged:
  "(get_risk_assessment lib self = Inr (rs, self1) \<longrightarrow>
      self1 = self \<and> generate_summary_report lib osum self1 = generate_summary_report lib osum self) \<and>
   (generate_recommendations lib self = Inr (recs, self2) \<longrightarrow>
      self2 = self \<and> generate_summary_report lib osum self2 = generate_summary_report lib osum self)"
  using get_risk_assessment_state[of lib self rs self1] generate_recommendations_state[of lib self recs self2]
  by auto

theorem queries_leave_engine_unchanged_witness:
  "(\<exists>rs s. get_risk_assessment exact_arith example_engine = Inr (rs, s) \<and> s = example_engine \<and>
      generate_summary_report exact_arith no_object_sum s =
        generate_summary_report exact_arith no_object_sum example_engine) \<and>
   (\<exists>recs s. generate_recommendations exact_arith example_engine = Inr (recs, s) \<and> s = example_engine \<and>
      generate_summary_report exact_arith no_object_sum s =
        generate_summary_report exact_arith no_object_sum example_engine)"
proof -
  obtain rs where rs: "get_risk_assessment exact_arith example_engine = Inr (rs, example_engine)"
    using example_risk by blast
  obtain recs where recs: "generate_recommendations exact_arith example_engine = Inr (recs, example_engine)"
    using example_recommendations by blast
  from queries_leave_engine_unchanged[of exact_arith example_engine rs example_engine no_object_sum
      recs example_engine] rs recs
  show ?thesis by simp
qed

text \<open>
  Claim C8. Along any run of the engine the input table stays the one that was loaded,
  and a slot differs from its initial value only if its own \<open>analyze\<close> method was called:
  each \<open>analyze\<close> method writes its own slot and nothing else.
\<close>

theorem analyze_writes_only_own_slot:
  assumes "run lib oa osum xs self = Inr self'"
  shows "data self' = data self \<and>
    (AnalyzeProduct \<notin> set xs \<longrightarrow> product_metrics self' = product_metrics self) \<and>
    (AnalyzeSupplier \<notin> set xs \<longrightarrow> supplier_metrics self' = supplier_metrics self) \<and>
    (AnalyzeLogistics \<notin> set xs \<longrightarrow> logistics_metrics self' = logistics_metrics self)"
  using run_data[OF assms] run_product[OF assms] run_supplier[OF assms] run_logistics[OF assms]
  by simp

theorem analyze_writes_only_own_slot_witness:
  "\<exists>s. run exact_arith no_object_agg no_object_sum [AnalyzeLogistics, AnalyzeProduct] example_engine = Inr s \<and>
     data s = example_frame \<and> supplier_metrics s = None"
proof -
  obtain s where s: "run exact_arith no_object_agg no_object_sum [AnalyzeLogistics, AnalyzeProduct] example_engine = Inr s"
    using example_run_two by blast
  from analyze_writes_only_own_slot[OF s] s show ?thesis
    by (simp add: example_engine_def)
qed

text \<open>
  Claim C7. An \<open>analyze\<close> method called a second time, on the engine its first call left,
  returns that same engine: the slot is overwritten with the value it already holds.
\<close>

theorem analyze_twice_same_tables:
  "(analyze_product_performance lib oa self = Inr s1 \<longrightarrow> analyze_product_performance lib oa s1 = Inr s1) \<and>
   (analyze_supplier_performance lib oa self = Inr s2 \<longrightarrow> analyze_supplier_performance lib oa s2 = Inr s2) \<and>
   (analyze_logistics lib oa self = Inr s3 \<longrightarrow> analyze_logistics lib oa s3 = Inr s3)"
  by (auto simp: analyze_product_performance_eq analyze_supplier_performance_eq analyze_logistics_eq)

theorem analyze_twice_same_tables_witness:
  "(\<exists>s1. analyze_product_performance exact_arith no_object_agg example_engine = Inr s1 \<and>
      analyze_product_performance exact_arith no_object_agg s1 = Inr s1) \<and>
   (\<exists>s2. analyze_supplier_performance exact_arith no_object_agg example_engine = Inr s2 \<and>
      analyze_supplier_performance exact_arith no_object_agg s2 = Inr s2) \<and>
   (\<exists>s3. analyze_logistics exact_arith no_object_agg example_engine = Inr s3 \<and>
      analyze_logistics exact_arith no_object_agg s3 = Inr s3)"
proof -
  have d: "data example_engine = example_frame" by (simp add: example_engine_def)
  obtain s1 where s1: "analyze_product_performance exact_arith no_object_agg example_engine = Inr s1"
    using example_product by (auto simp: analyze_product_performance_eq d)
  obtain s2 where s2: "analyze_supplier_performance exact_arith no_object_agg example_engine = Inr s2"
    using example_supplier by (auto simp: analyze_supplier_performance_eq d)
  obtain s3 where s3: "analyze_logistics exact_arith no_object_agg example_engine = Inr s3"
    using example_logistics by (auto simp: analyze_logistics_eq d)
  from analyze_twice_same_tables[of exact_arith no_object_agg example_engine s1 s2 s3] s1 s2 s3
  show ?thesis by blast
qed

text \<open>
  Claim C3. After any run on a freshly constructed engine, the summary report holds
  \<open>None\<close> in a slot exactly when the slot's \<open>analyze\<close> method was not called in the run,
  and otherwise the dictionary of tables that the method computes from the loaded data
  (which may be a dictionary of empty tables).
\<close>

theorem summary_marks_not_computed:
  assumes "init fs path = Inr self"
    and "run lib oa osum xs self = Inr self'"
    and "generate_summary_report lib osum self' = Inr (report, self'')"
  shows "(Product_Performance report = None \<longleftrightarrow> AnalyzeProduct \<notin> set xs) \<and>
    (AnalyzeProduct \<in> set xs \<longrightarrow>
       (\<exists>d. product_metrics_dict lib oa (data self) = Inr d \<and> Product_Performance report = Some d)) \<and>
    (Supplier_Performance report = None \<longleftrightarrow> AnalyzeSupplier \<notin> set xs) \<and>
    (AnalyzeSupplier \<in> set xs \<longrightarrow>
       (\<exists>d. supplier_metrics_dict lib oa (data self) = Inr d \<and> Supplier_Performance report = Some d)) \<and>
    (Logistics_Performance report = None \<longleftrightarrow> AnalyzeLogistics \<notin> set xs) \<and>
    (AnalyzeLogistics \<in> set xs \<longrightarrow>
       (\<exists>d. logistics_metrics_dict lib oa (data self) = Inr d \<and> Logistics_Performance report = Some d))"
proof -
  from assms(1) have fresh: "product_metrics self = None" "supplier_metrics self = None"
      "logistics_metrics self = None"
    by (auto simp: init_def bindE_eq_Inr)
  note slots = summary_slots[OF assms(3)]
  from run_product[OF assms(2)] fresh(1) slots
  have p: "(Product_Performance report = None \<longleftrightarrow> AnalyzeProduct \<notin> set xs) \<and>
    (AnalyzeProduct \<in> set xs \<longrightarrow>
       (\<exists>d. product_metrics_dict lib oa (data self) = Inr d \<and> Product_Performance report = Some d))"
    by (auto split: if_splits)
  from run_supplier[OF assms(2)] fresh(2) slots
  have s: "(Supplier_Performance report = None \<longleftrightarrow> AnalyzeSupplier \<notin> set xs) \<and>
    (AnalyzeSupplier \<in> set xs \<longrightarrow>
       (\<exists>d. supplier_metrics_dict lib oa (data self) = Inr d \<and> Supplier_Performance report = Some d))"
    by (auto split: if_splits)
  from run_logistics[OF assms(2)] fresh(3) slots
  have l: "(Logistics_Performance report = None \<longleftrightarrow> AnalyzeLogistics \<notin> set xs) \<and>
    (AnalyzeLogistics \<in> set xs \<longrightarrow>
       (\<exists>d. logistics_metrics_dict lib oa (data self) = Inr d \<and> Logistics_Performance report = Some d))"
    by (auto split: if_splits)
  from p s l show ?thesis by blast
qed

theorem summary_marks_not_computed_witness:
  "\<exists>s report s'. init example_files ''data/supply_chain_data.csv'' = Inr example_engine \<and>
     run exact_arith no_object_agg no_object_sum [AnalyzeLogistics, AnalyzeProduct] example_engine = Inr s \<and>
     generate_summary_report exact_arith no_object_sum s = Inr (report, s') \<and>
     Product_Performance report \<noteq> None \<and> Supplier_Performance report = None \<and>
     Logistics_Performance report \<noteq> None"
proof -
  have i: "init example_files ''data/supply_chain_data.csv'' = Inr example_engine"
    by (simp add: init_def read_csv_def example_files_def example_engine_def)
  obtain s where s: "run exact_arith no_object_agg no_object_sum [AnalyzeLogistics, AnalyzeProduct] example_engine = Inr s"
    using example_run_two by blast
  have "data s = example_frame"
    using run_data[OF s] by (simp add: example_engine_def)
  then obtain report where r: "generate_summary_report exact_arith no_object_sum s = Inr (report, s)"
    using example_summary by blast
  from summary_marks_not_computed[OF i s r] i s r show ?thesis
    by (intro exI[of _ s] exI[of _ report]) simp
qed

section \<open>Recommendations\<close>

lemma length_mask_positions: "length (mask_positions bs) = length (filter id bs)"
proof -
  have "filter id bs = filter id (map ((!) bs) [0..<length bs])"
    by (simp add: map_nth)
  also have "\<dots> = map ((!) bs) (filter (\<lambda>p. bs ! p) [0..<length bs])"
    by (simp add: filter_map o_def)
  finally show ?thesis
    by (simp add: mask_positions_def)
qed

lemma labels_select_mask [simp]: "labels (select_mask bs df) = mask_positions bs"
  by (simp add: select_mask_def take_rows_def)

lemma count_low_stock: "length (filter id (map (\<lambda>x. lt_cell x (Some 20)) stock)) = spec_low_stock stock"
  by (simp add: spec_low_stock_def filter_map o_def lt_cell_stock)

lemma count_failed: "length (filter id (col_eq_str insp ''Fail'')) = spec_failed_inspections insp"
  by (cases insp) (simp_all add: filter_map o_def)

lemma gt_scalar_outlier: "gt_scalar x t = spec_cost_outlier t x"
  by (cases x; cases t) (simp_all add: spec_cost_outlier_def)

lemma count_high_costs:
  "length (filter id (map (\<lambda>x. gt_scalar x (cost_threshold lib dt costs)) (float_cells lib dt costs)))
     = spec_high_costs lib dt costs"
  by (simp add: spec_high_costs_def filter_map o_def gt_scalar_outlier)

lemma generate_recommendations_numeric:
  assumes stock: "map_of (cols (data self)) ''Stock levels'' = Some (NumCol dt1 stock)"
    and insp: "map_of (cols (data self)) ''Inspection results'' = Some insp"
    and costs: "map_of (cols (data self)) ''Costs'' = Some (NumCol dt2 costs)"
  shows "generate_recommendations lib self =
    Inr (spec_recommendations (spec_low_stock stock) (spec_failed_inspections insp)
           (spec_high_costs lib dt2 costs), self)"
proof -
  define low where "low = map (\<lambda>x. lt_cell x (Some 20)) stock"
  define fail where "fail = col_eq_str insp ''Fail''"
  define high where "high = map (\<lambda>x. gt_scalar x (cost_threshold lib dt2 costs)) (float_cells lib dt2 costs)"
  have m1: "col_lt (NumCol dt1 stock) (Some 20) = Inr low"
    by (simp add: col_lt_def low_def)
  have m2: "col_eq_str insp ''Fail'' = fail"
    by (simp add: fail_def)
  have m3: "col_gt_float lib (NumCol dt2 costs) (fadd lib (series_mean lib dt2 costs) (series_std lib dt2 costs))
      = Inr high"
    by (simp add: col_gt_float_def high_def cost_threshold_def)
  have n1: "length (mask_positions low) = spec_low_stock stock"
    unfolding low_def length_mask_positions by (rule count_low_stock)
  have n2: "length (mask_positions fail) = spec_failed_inspections insp"
    unfolding fail_def length_mask_positions by (rule count_failed)
  have n3: "length (mask_positions high) = spec_high_costs lib dt2 costs"
    unfolding high_def length_mask_positions by (rule count_high_costs)
  have e1: "mask_positions low \<noteq> [] \<longleftrightarrow> 0 < spec_low_stock stock"
    using n1 by (metis length_greater_0_conv)
  have e2: "mask_positions fail \<noteq> [] \<longleftrightarrow> 0 < spec_failed_inspections insp"
    using n2 by (metis length_greater_0_conv)
  have e3: "mask_positions high \<noteq> [] \<longleftrightarrow> 0 < spec_high_costs lib dt2 costs"
    using n3 by (metis length_greater_0_conv)
  have c1: "col_mean lib (NumCol dt2 costs) = Inr (series_mean lib dt2 costs)"
    by simp
  have c2: "col_std lib (NumCol dt2 costs) = Inr (series_std lib dt2 costs)"
    by simp
  show ?thesis
    unfolding generate_recommendations_def spec_recommendations_def
    by (simp only: getitem_Some[OF stock] getitem_Some[OF insp] getitem_Some[OF costs]
        bindE_Inr m1 m2 m3 c1 c2 Let_def labels_select_mask n1 n2 n3 e1 e2 e3 append_assoc)
qed

lemma str_nat_digit: "n < 10 \<Longrightarrow> str_nat n = [''0123456789'' ! n]"
  by (subst str_nat.simps) simp

lemma str_nat_1: "str_nat (Suc 0) = ''1''"
  by (simp add: str_nat_digit)

lemma spec_recommendations_empty:
  "spec_recommendations a b c = [] \<longleftrightarrow> a = 0 \<and> b = 0 \<and> c = 0"
  by (simp add: spec_recommendations_def)

lemma exact_mean_cases: "exact_mean xs = XNaN \<or> (\<exists>m. exact_mean xs = Fin m)"
  by (simp add: exact_mean_def Let_def)

lemma exact_std_cases: "exact_std xs = XNaN \<or> (\<exists>s. exact_std xs = Fin s)"
  by (simp add: exact_std_def Let_def)

lemma spec_cost_outlier_exact_threshold:
  "spec_cost_outlier (xadd (exact_mean xs) (exact_std xs)) = spec_cost_outlier_exact xs"
proof
  fix x
  show "spec_cost_outlier (xadd (exact_mean xs) (exact_std xs)) x = spec_cost_outlier_exact xs x"
    using exact_mean_cases[of xs] exact_std_cases[of xs]
    by (auto simp: spec_cost_outlier_def spec_cost_outlier_exact_def split: option.splits)
qed

text \<open>
  Claim C2. On a table whose stock and cost columns are numeric, \<open>generate_recommendations\<close>
  evaluates the three rules independently (the third against the mean plus the standard
  deviation that \<^verbatim>\<open>Series.mean()\<close> and \<^verbatim>\<open>Series.std()\<close> return, whatever the arithmetic),
  each entry carrying the number of matching records in its issue text; the list is
  empty exactly when no rule has a matching record; and with stock levels 5, 25, 100, no
  failed inspection and no cost outlier the list is the single Inventory entry
  "Low stock alerts for 1 SKUs". Whenever the threshold is the exact mean plus the exact
  standard deviation, the third rule counts the costs above that sum.
\<close>

theorem recommendations_contract:
  assumes stock: "map_of (cols (data self)) ''Stock levels'' = Some (NumCol dt1 stock)"
    and insp: "map_of (cols (data self)) ''Inspection results'' = Some insp"
    and costs: "map_of (cols (data self)) ''Costs'' = Some (NumCol dt2 costs)"
  shows "\<exists>recs. generate_recommendations lib self = Inr (recs, self) \<and>
    recs = spec_recommendations (spec_low_stock stock) (spec_failed_inspections insp)
             (spec_high_costs lib dt2 costs) \<and>
    (recs = [] \<longleftrightarrow> spec_low_stock stock = 0 \<and> spec_failed_inspections insp = 0 \<and>
                    spec_high_costs lib dt2 costs = 0) \<and>
    (stock = [Some 5, Some 25, Some 100] \<and> spec_failed_inspections insp = 0 \<and>
       spec_high_costs lib dt2 costs = 0 \<longrightarrow>
       recs = [\<lparr>area = ''Inventory'', issue = ''Low stock alerts for 1 SKUs'',
                action = ''Reorder stocks for affected SKUs'', priority = ''High''\<rparr>]) \<and>
    (cost_threshold lib dt2 costs = xadd (exact_mean costs) (exact_std costs) \<longrightarrow>
       spec_high_costs lib dt2 costs =
         length (filter (spec_cost_outlier_exact costs) (float_cells lib dt2 costs)))"
proof -
  have ex: "spec_low_stock [Some 5, Some 25, Some 100] = 1"
    by (simp add: spec_low_stock_def spec_stock_risk_def)
  have one: "spec_recommendations 1 0 0 = [\<lparr>area = ''Inventory'', issue = ''Low stock alerts for 1 SKUs'',
                action = ''Reorder stocks for affected SKUs'', priority = ''High''\<rparr>]"
    by (simp add: spec_recommendations_def str_nat_1)
  have exact: "cost_threshold lib dt2 costs = xadd (exact_mean costs) (exact_std costs) \<longrightarrow>
       spec_high_costs lib dt2 costs =
         length (filter (spec_cost_outlier_exact costs) (float_cells lib dt2 costs))"
    by (simp add: spec_high_costs_def spec_cost_outlier_exact_threshold)
  show ?thesis
    using generate_recommendations_numeric[OF stock insp costs, of lib] ex one exact
    by (auto simp: spec_recommendations_empty)
qed

theorem recommendations_contract_witness:
  "\<exists>recs. generate_recommendations exact_arith example_engine = Inr (recs, example_engine) \<and>
     recs = [\<lparr>area = ''Inventory'', issue = ''Low stock alerts for 1 SKUs'',
              action = ''Reorder stocks for affected SKUs'', priority = ''High''\<rparr>]"
proof -
  have stock: "map_of (cols (data example_engine)) ''Stock levels'' = Some (NumCol Int64 [Some 5, Some 25, Some 100])"
    by (simp add: example_engine_def example_frame_def)
  have insp: "map_of (cols (data example_engine)) ''Inspection results'' =
      Some (ObjCol [Some ''Pass'', Some ''Pending'', Some ''Pass''])"
    by (simp add: example_engine_def example_frame_def)
  have costs: "map_of (cols (data example_engine)) ''Costs'' = Some (NumCol Float64 [Some 10, Some 10, Some 10])"
    by (simp add: example_engine_def example_frame_def)
  have f: "spec_failed_inspections (ObjCol [Some ''Pass'', Some ''Pending'', Some ''Pass'']) = 0"
    by simp
  have h: "spec_high_costs exact_arith Float64 [Some 10, Some 10, Some 10] = 0"
    by (simp add: spec_high_costs_def cost_threshold_def exact_arith_def exact_mean_def exact_std_def
        present_def List.map_filter_def float_cells_def spec_cost_outlier_def)
  from recommendations_contract[OF stock insp costs, of exact_arith] f h show ?thesis
    by auto
qed

section \<open>Top revenue products\<close>



lemma stable_desc_set [simp]: "set (stable_desc xs) = {0..<length xs}"
  by (simp add: stable_desc_def)

lemma stable_desc_distinct [simp]: "distinct (stable_desc xs)"
  by (simp add: stable_desc_def)









section \<open>Group keys\<close>

lemma agg_round_keys: "agg_round lib oa df ks spec = Inr g \<Longrightarrow> gkeys g = group_keys ks"
  by (auto simp: agg_round_def Let_def bindE_eq_Inr split: if_splits)

lemma groupby_agg_keys:
  "groupby_agg lib oa df by spec = Inr g \<Longrightarrow>
     \<exists>c. map_of (cols df) by = Some c \<and> gkeys g = group_keys (col_keys c)"
  by (auto simp: groupby_agg_def bindE_eq_Inr getitem_eq_Inr dest: agg_round_keys)

lemma groupby2_agg_keys:
  "groupby2_agg lib oa df by1 by2 spec = Inr g \<Longrightarrow>
     \<exists>c1 c2. map_of (cols df) by1 = Some c1 \<and> map_of (cols df) by2 = Some c2 \<and>
       gkeys g = group_keys (pair_keys (col_keys c1) (col_keys c2))"
  by (auto simp: groupby2_agg_def bindE_eq_Inr getitem_eq_Inr dest: agg_round_keys)

lemma group_keys_first_appearance: "group_keys ks = sort (first_appearance ks)"
  unfolding group_keys_def first_appearance_def
  by (rule sorted_distinct_set_unique) simp_all

text \<open>
  Claim C5, amended. The grouping keys of each of the five aggregation tables are
  exactly the distinct present values of the group-by column (of the pairs of values,
  for the transport cost table, which is grouped by two columns), in ascending order:
  the keys in order of first appearance, sorted.
\<close>

theorem group_keys_sorted:
  "(product_metrics_dict lib oa df = Inr pm \<longrightarrow>
      (\<exists>c. map_of (cols df) ''Product type'' = Some c \<and>
           gkeys (category_performance pm) = sort (first_appearance (col_keys c)))) \<and>
   (supplier_metrics_dict lib oa df = Inr sm \<longrightarrow>
      (\<exists>c. map_of (cols df) ''Supplier name'' = Some c \<and>
           gkeys (supplier_performance sm) = sort (first_appearance (col_keys c)))) \<and>
   (logistics_metrics_dict lib oa df = Inr lm \<longrightarrow>
      (\<exists>c m r. map_of (cols df) ''Shipping carriers'' = Some c \<and>
           map_of (cols df) ''Transportation modes'' = Some m \<and> map_of (cols df) ''Routes'' = Some r \<and>
           gkeys (carrier_performance lm) = sort (first_appearance (col_keys c)) \<and>
           gkeys (transport_cost_analysis lm) = sort (first_appearance (pair_keys (col_keys m) (col_keys r))) \<and>
           gkeys (route_efficiency lm) = sort (first_appearance (col_keys r))))"
proof (intro conjI impI)
  assume "product_metrics_dict lib oa df = Inr pm"
  then show "\<exists>c. map_of (cols df) ''Product type'' = Some c \<and>
           gkeys (category_performance pm) = sort (first_appearance (col_keys c))"
    unfolding product_metrics_dict_def
    by (auto simp: bindE_eq_Inr group_keys_first_appearance[symmetric] dest!: groupby_agg_keys)
next
  assume "supplier_metrics_dict lib oa df = Inr sm"
  then show "\<exists>c. map_of (cols df) ''Supplier name'' = Some c \<and>
           gkeys (supplier_performance sm) = sort (first_appearance (col_keys c))"
    unfolding supplier_metrics_dict_def
    by (auto simp: bindE_eq_Inr group_keys_first_appearance[symmetric] dest!: groupby_agg_keys)
next
  assume "logistics_metrics_dict lib oa df = Inr lm"
  then show "\<exists>c m r. map_of (cols df) ''Shipping carriers'' = Some c \<and>
           map_of (cols df) ''Transportation modes'' = Some m \<and> map_of (cols df) ''Routes'' = Some r \<and>
           gkeys (carrier_performance lm) = sort (first_appearance (col_keys c)) \<and>
           gkeys (transport_cost_analysis lm) = sort (first_appearance (pair_keys (col_keys m) (col_keys r))) \<and>
           gkeys (route_efficiency lm) = sort (first_appearance (col_keys r))"
    unfolding logistics_metrics_dict_def
    by (auto simp: bindE_eq_Inr group_keys_first_appearance[symmetric] dest!: groupby_agg_keys groupby2_agg_keys)
qed

lemma example_category_keys:
  "\<exists>pm. product_metrics_dict exact_arith no_object_agg example_frame = Inr pm \<and>
      gkeys (category_performance pm) = [KStr ''haircare'', KStr ''skincare'']"
  by (simp add: product_metrics_dict_def example_frame_def groupby_agg_def agg_round_def
      group_keys_def present_def List.map_filter_def less_key_def group_positions_def upt3
      nlargest_def nlargest_positions_def take_rows_def project_def Let_def col_lt_def
      select_mask_def mask_positions_def lt_cell_def)

theorem category_keys_not_in_first_appearance_order:
  "bindE (product_metrics_dict exact_arith no_object_agg example_frame)
      (\<lambda>pm. Inr (gkeys (category_performance pm))) = Inr [KStr ''haircare'', KStr ''skincare''] \<and>
   map_of (cols example_frame) ''Product type'' = Some (ObjCol [Some ''skincare'', Some ''haircare'', Some ''skincare'']) \<and>
   first_appearance (col_keys (ObjCol [Some ''skincare'', Some ''haircare'', Some ''skincare'']))
     = [KStr ''skincare'', KStr ''haircare'']"
proof -
  obtain pm where "product_metrics_dict exact_arith no_object_agg example_frame = Inr pm"
    "gkeys (category_performance pm) = [KStr ''haircare'', KStr ''skincare'']"
    using example_category_keys by blast
  moreover have "map_of (cols example_frame) ''Product type'' = Some (ObjCol [Some ''skincare'', Some ''haircare'', Some ''skincare''])"
    by (simp add: example_frame_def)
  moreover have "first_appearance (col_keys (ObjCol [Some ''skincare'', Some ''haircare'', Some ''skincare'']))
        = [KStr ''skincare'', KStr ''haircare'']"
    by (simp add: first_appearance_def present_def List.map_filter_def)
  ultimately show ?thesis by simp
qed

theorem group_keys_sorted_witness:
  "\<exists>pm sm lm. product_metrics_dict exact_arith no_object_agg example_frame = Inr pm \<and>
     supplier_metrics_dict exact_arith no_object_agg example_frame = Inr sm \<and>
     logistics_metrics_dict exact_arith no_object_agg example_frame = Inr lm \<and>
     gkeys (category_performance pm) = sort [KStr ''skincare'', KStr ''haircare''] \<and>
     gkeys (supplier_performance sm) = sort [KStr ''Supplier 2'', KStr ''Supplier 1''] \<and>
     gkeys (carrier_performance lm) = sort [KStr ''Carrier B'', KStr ''Carrier A''] \<and>
     gkeys (transport_cost_analysis lm) = sort [(KStr ''Road'', KStr ''Route B''), (KStr ''Air'', KStr ''Route A'')] \<and>
     gkeys (route_efficiency lm) = sort [KStr ''Route B'', KStr ''Route A'']"
proof -
  obtain pm where pm: "product_metrics_dict exact_arith no_object_agg example_frame = Inr pm"
    using example_product by blast
  obtain sm where sm: "supplier_metrics_dict exact_arith no_object_agg example_frame = Inr sm"
    using example_supplier by blast
  obtain lm where lm: "logistics_metrics_dict exact_arith no_object_agg example_frame = Inr lm"
    using example_logistics by blast
  have c: "map_of (cols example_frame) ''Product type'' = Some (ObjCol [Some ''skincare'', Some ''haircare'', Some ''skincare''])"
    "map_of (cols example_frame) ''Supplier name'' = Some (ObjCol [Some ''Supplier 2'', Some ''Supplier 1'', Some ''Supplier 2''])"
    "map_of (cols example_frame) ''Shipping carriers'' = Some (ObjCol [Some ''Carrier B'', Some ''Carrier A'', Some ''Carrier B''])"
    "map_of (cols example_frame) ''Transportation modes'' = Some (ObjCol [Some ''Road'', Some ''Air'', Some ''Road''])"
    "map_of (cols example_frame) ''Routes'' = Some (ObjCol [Some ''Route B'', Some ''Route A'', Some ''Route B''])"
    by (simp_all add: example_frame_def)
  have f: "first_appearance (col_keys (ObjCol [Some ''skincare'', Some ''haircare'', Some ''skincare'']))
        = [KStr ''skincare'', KStr ''haircare'']"
    "first_appearance (col_keys (ObjCol [Some ''Supplier 2'', Some ''Supplier 1'', Some ''Supplier 2'']))
        = [KStr ''Supplier 2'', KStr ''Supplier 1'']"
    "first_appearance (col_keys (ObjCol [Some ''Carrier B'', Some ''Carrier A'', Some ''Carrier B'']))
        = [KStr ''Carrier B'', KStr ''Carrier A'']"
    "first_appearance (pair_keys (col_keys (ObjCol [Some ''Road'', Some ''Air'', Some ''Road'']))
        (col_keys (ObjCol [Some ''Route B'', Some ''Route A'', Some ''Route B''])))
        = [(KStr ''Road'', KStr ''Route B''), (KStr ''Air'', KStr ''Route A'')]"
    "first_appearance (col_keys (ObjCol [Some ''Route B'', Some ''Route A'', Some ''Route B'']))
        = [KStr ''Route B'', KStr ''Route A'']"
    by (simp_all add: first_appearance_def present_def List.map_filter_def pair_keys_def)
  from group_keys_sorted[of exact_arith no_object_agg example_frame pm sm lm] pm sm lm c
  have "gkeys (category_performance pm) = sort [KStr ''skincare'', KStr ''haircare''] \<and>
     gkeys (supplier_performance sm) = sort [KStr ''Supplier 2'', KStr ''Supplier 1''] \<and>
     gkeys (carrier_performance lm) = sort [KStr ''Carrier B'', KStr ''Carrier A''] \<and>
     gkeys (transport_cost_analysis lm) = sort [(KStr ''Road'', KStr ''Route B''), (KStr ''Air'', KStr ''Route A'')] \<and>
     gkeys (route_efficiency lm) = sort [KStr ''Route B'', KStr ''Route A'']"
    unfolding f[symmetric] by auto
  with pm sm lm show ?thesis by blast
qed

section \<open>Loading\<close>




section \<open>Derived scores\<close>

lemma clip_range: "clip 0 100 v = None \<or> spec_in_range (clip 0 100 v)"
  by (cases v) (simp_all add: clip_def spec_in_range_def)

lemma efficiency_score_range:
  "efficiency_score lib df = Inr e \<Longrightarrow>
     \<exists>es. e = NumCol Float64 es \<and> (\<forall>x\<in>set es. x = None \<or> spec_in_range x)"
  unfolding efficiency_score_def
  apply (auto simp: bindE_eq_Inr)
  using clip_range by blast

lemma cost_effectiveness_range:
  "cost_effectiveness lib df = Inr c \<Longrightarrow>
     \<exists>cs. c = NumCol Float64 cs \<and> (\<forall>x\<in>set cs. x = None \<or> spec_in_range x)"
  unfolding cost_effectiveness_def
  apply (auto simp: bindE_eq_Inr)
  using clip_range by blast

lemma map_of_setitem: "map_of (cols (setitem df name c)) = (map_of (cols df))(name \<mapsto> c)"
  by (simp add: setitem_def update_conv')

lemma nrows_setitem [simp]: "nrows (setitem df name c) = nrows df"
  by (simp add: setitem_def)

text \<open>
  Claim C9, amended. In the table of the dashboard each of the two derived scores is
  NaN or lies between 0 and 100, and every other column is the one that was loaded,
  whatever its values.
\<close>

theorem dashboard_scores_in_range_or_nan:
  assumes "dashboard_frame lib fs = Inr df'"
  shows "\<exists>df es cs. read_csv fs ''data/supply_chain_data.csv'' = Inr df \<and> nrows df' = nrows df \<and>
     map_of (cols df') ''efficiency_score'' = Some (NumCol Float64 es) \<and>
     map_of (cols df') ''cost_effectiveness'' = Some (NumCol Float64 cs) \<and>
     (\<forall>x\<in>set es. x = None \<or> spec_in_range x) \<and>
     (\<forall>x\<in>set cs. x = None \<or> spec_in_range x) \<and>
     (\<forall>name. name \<noteq> ''efficiency_score'' \<and> name \<noteq> ''cost_effectiveness'' \<longrightarrow>
        map_of (cols df') name = map_of (cols df) name)"
proof -
  from assms obtain df e c where df: "read_csv fs ''data/supply_chain_data.csv'' = Inr df"
    and e: "efficiency_score lib df = Inr e"
    and c: "cost_effectiveness lib (setitem df ''efficiency_score'' e) = Inr c"
    and df': "df' = setitem (setitem df ''efficiency_score'' e) ''cost_effectiveness'' c"
    unfolding dashboard_frame_def by (auto simp: bindE_eq_Inr Let_def)
  from efficiency_score_range[OF e] obtain es where es: "e = NumCol Float64 es"
    "\<forall>x\<in>set es. x = None \<or> spec_in_range x" by blast
  from cost_effectiveness_range[OF c] obtain cs where cs: "c = NumCol Float64 cs"
    "\<forall>x\<in>set cs. x = None \<or> spec_in_range x" by blast
  show ?thesis
    apply (rule exI[of _ df], rule exI[of _ es], rule exI[of _ cs])
    using df es cs by (simp add: df' map_of_setitem)
qed

lemma example_gap:
  "dashboard_frame exact_arith gap_files = Inr \<lparr>nrows = 1, cols = [
     (''Revenue generated'', NumCol Float64 [None]),
     (''Lead time'', NumCol Int64 [Some 30]),
     (''Manufacturing costs'', NumCol Float64 [Some 10]),
     (''Defect rates'', NumCol Float64 [Some 0]),
     (''efficiency_score'', NumCol Float64 [Some 0]),
     (''cost_effectiveness'', NumCol Float64 [None])]\<rparr>"
  by (simp add: dashboard_frame_def read_csv_def gap_files_def gap_frame_def efficiency_score_def
      cost_effectiveness_def setitem_def getitem_def lift2_def clip_def exact_arith_def Let_def)

theorem score_of_missing_revenue_is_nan:
  "dashboard_frame exact_arith gap_files = Inr \<lparr>nrows = 1, cols = [
     (''Revenue generated'', NumCol Float64 [None]),
     (''Lead time'', NumCol Int64 [Some 30]),
     (''Manufacturing costs'', NumCol Float64 [Some 10]),
     (''Defect rates'', NumCol Float64 [Some 0]),
     (''efficiency_score'', NumCol Float64 [Some 0]),
     (''cost_effectiveness'', NumCol Float64 [None])]\<rparr> \<and>
   list_all spec_in_range [None] = False"
  using example_gap by (simp add: spec_in_range_def)

theorem dashboard_scores_in_range_or_nan_witness:
  "\<exists>df' es cs. dashboard_frame exact_arith gap_files = Inr df' \<and> nrows df' = 1 \<and>
     map_of (cols df') ''efficiency_score'' = Some (NumCol Float64 es) \<and>
     map_of (cols df') ''cost_effectiveness'' = Some (NumCol Float64 cs) \<and>
     (\<forall>x\<in>set es. x = None \<or> spec_in_range x) \<and>
     (\<forall>x\<in>set cs. x = None \<or> spec_in_range x) \<and>
     map_of (cols df') ''Lead time'' = Some (NumCol Int64 [Some 30])"
proof -
  obtain df' where d: "dashboard_frame exact_arith gap_files = Inr df'"
    using example_gap by blast
  have r: "read_csv gap_files ''data/supply_chain_data.csv'' = Inr gap_frame"
    by (simp add: read_csv_def gap_files_def)
  from dashboard_scores_in_range_or_nan[OF d] r obtain es cs where
    "nrows df' = nrows gap_frame"
    "map_of (cols df') ''efficiency_score'' = Some (NumCol Float64 es)"
    "map_of (cols df') ''cost_effectiveness'' = Some (NumCol Float64 cs)"
    "\<forall>x\<in>set es. x = None \<or> spec_in_range x"
    "\<forall>x\<in>set cs. x = None \<or> spec_in_range x"
    "map_of (cols df') ''Lead time'' = map_of (cols gap_frame) ''Lead time''"
    by auto
  with d show ?thesis
    by (intro exI[of _ df'] exI[of _ es] exI[of _ cs]) (simp add: gap_frame_def)
qed

end
